theory Spec2Isabelle
  imports Complex_Main
begin

section \<open>Ramsey chevron measurement: data model\<close>

text \<open>
  The development embeds \<^verbatim>\<open>ramsey_chevron.py\<close>. Python floats are modelled by
  \<^typ>\<open>real\<close>: arithmetic is exact, rounding and the non-finite floats are not part of
  the model, except in the fit results, where NaN is the error marker of the program.
  Python integers are \<^typ>\<open>int\<close>.
\<close>

text \<open>
  The exceptions of the program. An \<^verbatim>\<open>AssertionError\<close> carries the expression
  that was asserted.
\<close>

datatype error =
    AssertionError string
  | ValueError
  | IndexError
  | KeyError string
  | ZeroDivisionError
  | TypeError
  | OSError

text \<open>A number passed to the constructor: a Python int or a Python float.\<close>

datatype pynum = PyInt int | PyFloat real

fun to_float :: "pynum \<Rightarrow> real" where
  "to_float (PyInt i) = of_int i"
| "to_float (PyFloat x) = x"

text \<open>
  A numpy array of any dimension: its shape and its elements in row-major order. An array
  of dimension zero has the empty shape.
\<close>

record 'a ndarray =
  shape :: "nat list"
  data :: "'a list"

text \<open>A list as the one-dimensional array of its elements.\<close>

definition array1 :: "'a list \<Rightarrow> 'a ndarray" where
  "array1 xs = \<lparr> shape = [length xs], data = xs \<rparr>"

text \<open>
  The \<^verbatim>\<open>delay_arr\<close> argument: one number, a flat sequence of numbers, or an array
  of numbers of any dimension. A nested list of numbers is the array numpy makes of it.
\<close>

datatype delay_arg = Scalar pynum | Listed "pynum list" | Array "pynum ndarray"


text \<open>
  \<^verbatim>\<open>np.atleast_1d\<close>: a scalar and an array of dimension zero become an array of
  length one; an array of one or more dimensions is left as it is.
\<close>

fun atleast_1d :: "delay_arg \<Rightarrow> pynum ndarray" where
  "atleast_1d (Scalar x) = array1 [x]"
| "atleast_1d (Listed xs) = array1 xs"
| "atleast_1d (Array a) = (if shape a = [] then a\<lparr> shape := [1] \<rparr> else a)"

text \<open>\<^verbatim>\<open>astype(np.float64)\<close> converts the elements and keeps the shape.\<close>

definition astype_float64 :: "pynum ndarray \<Rightarrow> real ndarray" where
  "astype_float64 a = \<lparr> shape = shape a, data = map to_float (data a) \<rparr>"

record ramsey_chevron =
  readout_freq :: real
  control_freq_center :: real
  control_freq_span :: real
  control_freq_nr :: int
  readout_amp :: real
  control_amp :: real
  readout_duration :: real
  control_duration :: real
  sample_duration :: real
  delay_arr :: "real ndarray"
  readout_port :: int
  control_port :: int
  sample_port :: int
  wait_delay :: real
  readout_sample_delay :: real
  num_averages :: int
  jpa_params :: "(string \<rightharpoonup> real) option"
  drag :: real
  control_freq_arr :: "real list option"
  t_arr :: "real list option"
  store_arr :: "complex ndarray option"

text \<open>\<^verbatim>\<open>RamseyChevron.__init__\<close>, with the arguments in the order of the source.\<close>

definition init ::
  "real \<Rightarrow> real \<Rightarrow> real \<Rightarrow> int \<Rightarrow> real \<Rightarrow> real \<Rightarrow> real \<Rightarrow> real \<Rightarrow> real \<Rightarrow> delay_arg \<Rightarrow>
   int \<Rightarrow> int \<Rightarrow> int \<Rightarrow> real \<Rightarrow> real \<Rightarrow> int \<Rightarrow> (string \<rightharpoonup> real) option \<Rightarrow> real \<Rightarrow>
   ramsey_chevron" where
  "init readout_freq' control_freq_center' control_freq_span' control_freq_nr' readout_amp'
        control_amp' readout_duration' control_duration' sample_duration' delay_arr'
        readout_port' control_port' sample_port' wait_delay' readout_sample_delay'
        num_averages' jpa_params' drag' =
     \<lparr> readout_freq = readout_freq',
       control_freq_center = control_freq_center',
       control_freq_span = control_freq_span',
       control_freq_nr = control_freq_nr',
       readout_amp = readout_amp',
       control_amp = control_amp',
       readout_duration = readout_duration',
       control_duration = control_duration',
       sample_duration = sample_duration',
       delay_arr = astype_float64 (atleast_1d delay_arr'),
       readout_port = readout_port',
       control_port = control_port',
       sample_port = sample_port',
       wait_delay = wait_delay',
       readout_sample_delay = readout_sample_delay',
       num_averages = num_averages',
       jpa_params = jpa_params',
       drag = drag',
       control_freq_arr = None,
       t_arr = None,
       store_arr = None \<rparr>"

section \<open>The vendor interface\<close>

text \<open>
  Every call that \<^verbatim>\<open>run\<close> issues on the \<^verbatim>\<open>Pulsed\<close> object or on its
  \<^verbatim>\<open>hardware\<close>, with its arguments, and the call of \<^verbatim>\<open>Base.save\<close>. The type
  \<open>'p\<close> is the pulse handle that the interface returns. A scalar passed where the
  interface also takes an array is a list of length one. The values of \<^verbatim>\<open>jpa_params\<close>
  are Python numbers and are passed on as reals, the two ports among them.
\<close>

datatype 'p call =
    PulsedEnter string "int option" bool
  | PulsedExit
  | GetFs string
  | GetClkF
  | GetClkT
  | SetAdcAttenuation int real
  | SetDacCurrent int int
  | SetInvSinc int int
  | ConfigureMixer real "int option" int bool
  | SetLmx real real real
  | SetDcBias real real
  | Sleep real bool
  | SetupFreqLut int int "real list" "real list" "real list"
  | SetupScaleLut int int real
  | SetupLongDrive int int real real real real real
  | SetupTemplate int int "complex list" "complex list option" bool
  | SetStorePorts int
  | SetStoreDuration real
  | ResetPhase real int
  | OutputPulse real 'p
  | Store real
  | NextFrequency real int
  | Run real int int bool
  | GetStoreData
  | BaseSave "string option"

text \<open>
  What the environment answers: the responses of the interface, the library functions
  \<^verbatim>\<open>presto.utils.sin2\<close> and \<^verbatim>\<open>presto.utils.rotate_opt\<close>, Python's \<^verbatim>\<open>str\<close> and
  \<^verbatim>\<open>ast.literal_eval\<close> on the value of \<^verbatim>\<open>jpa_params\<close>, and the name that
  \<^verbatim>\<open>Base.save\<close> gives the file it writes.
\<close>

record 'p sdk =
  hardware_present :: bool
  get_fs :: "string \<Rightarrow> real"
  get_clk_f :: real
  get_clk_T :: real
  long_drive :: 'p
  template :: 'p
  get_store_data :: "real list \<times> complex ndarray"
  sin2 :: "int \<Rightarrow> real \<Rightarrow> complex list"
  rotate_opt :: "complex list \<Rightarrow> complex list"
  py_str :: "(string \<rightharpoonup> real) option \<Rightarrow> string"
  literal_eval :: "string \<Rightarrow> error + (string \<rightharpoonup> real) option"
  saved_as :: "string option \<Rightarrow> string"

definition DAC_CURRENT :: int where
  "DAC_CURRENT = 32000"

definition IDX_LOW :: nat where
  "IDX_LOW = 1500"

definition IDX_HIGH :: nat where
  "IDX_HIGH = 2000"

section \<open>Persistence\<close>

datatype attr = AFloat real | AInt int | AStr string

datatype dataset = FloatND "real ndarray" | ComplexND "complex ndarray"

record h5file =
  attrs :: "string \<rightharpoonup> attr"
  datasets :: "string \<rightharpoonup> dataset"

type_synonym filesystem = "string \<rightharpoonup> h5file"

text \<open>
  Modelled from the spec: \<^verbatim>\<open>Base.save\<close> of \<^verbatim>\<open>_base.py\<close>, which is not part of the
  sources at hand. The spec has the parameter bag and the raw arrays persisted verbatim
  to a self-describing attribute-plus-array file: every scalar parameter is an attribute,
  every array is a dataset, both under the name of the field. \<^verbatim>\<open>load\<close> reads
  \<^verbatim>\<open>jpa_params\<close> through \<^verbatim>\<open>ast.literal_eval\<close>, so that attribute holds the text of
  the value. An array that is still \<^verbatim>\<open>None\<close> cannot be written as a dataset.
\<close>

definition file_of :: "'p sdk \<Rightarrow> ramsey_chevron \<Rightarrow> error + h5file" where
  "file_of env self =
     (case (control_freq_arr self, t_arr self, store_arr self) of
        (Some f, Some t, Some s) \<Rightarrow>
          Inr \<lparr> attrs = [
                  ''readout_freq'' \<mapsto> AFloat (readout_freq self),
                  ''control_freq_center'' \<mapsto> AFloat (control_freq_center self),
                  ''control_freq_span'' \<mapsto> AFloat (control_freq_span self),
                  ''control_freq_nr'' \<mapsto> AInt (control_freq_nr self),
                  ''readout_amp'' \<mapsto> AFloat (readout_amp self),
                  ''control_amp'' \<mapsto> AFloat (control_amp self),
                  ''readout_duration'' \<mapsto> AFloat (readout_duration self),
                  ''control_duration'' \<mapsto> AFloat (control_duration self),
                  ''sample_duration'' \<mapsto> AFloat (sample_duration self),
                  ''readout_port'' \<mapsto> AInt (readout_port self),
                  ''control_port'' \<mapsto> AInt (control_port self),
                  ''sample_port'' \<mapsto> AInt (sample_port self),
                  ''wait_delay'' \<mapsto> AFloat (wait_delay self),
                  ''readout_sample_delay'' \<mapsto> AFloat (readout_sample_delay self),
                  ''num_averages'' \<mapsto> AInt (num_averages self),
                  ''jpa_params'' \<mapsto> AStr (py_str env (jpa_params self)),
                  ''drag'' \<mapsto> AFloat (drag self)],
                datasets = [
                  ''delay_arr'' \<mapsto> FloatND (delay_arr self),
                  ''control_freq_arr'' \<mapsto> FloatND (array1 f),
                  ''t_arr'' \<mapsto> FloatND (array1 t),
                  ''store_arr'' \<mapsto> ComplexND s] \<rparr>
      | _ \<Rightarrow> Inl TypeError)"

text \<open>
  Modelled from the spec: \<^verbatim>\<open>Base.save\<close> writes the file under the name it
  chooses for the name asked for, and returns that name.
\<close>

definition base_save ::
  "'p sdk \<Rightarrow> filesystem \<Rightarrow> ramsey_chevron \<Rightarrow> string option \<Rightarrow> error + filesystem \<times> string" where
  "base_save env fs self save_filename =
     (case file_of env self of
        Inl e \<Rightarrow> Inl e
      | Inr f \<Rightarrow> Inr (fs(saved_as env save_filename \<mapsto> f), saved_as env save_filename))"

text \<open>\<^verbatim>\<open>RamseyChevron.save\<close> hands over to \<^verbatim>\<open>Base.save\<close>.\<close>

definition save ::
  "'p sdk \<Rightarrow> filesystem \<Rightarrow> ramsey_chevron \<Rightarrow> string option \<Rightarrow> error + filesystem \<times> string" where
  "save env fs self save_filename = base_save env fs self save_filename"

section \<open>Running the experiment\<close>

text \<open>
  A step of \<^verbatim>\<open>run\<close> yields the calls it has issued and either the exception it raised
  or its value. Sequencing stops at the first exception and keeps the calls issued so far.
\<close>

type_synonym ('p, 'a) step = "'p call list \<times> (error + 'a)"

definition bind_step :: "('p, 'a) step \<Rightarrow> ('a \<Rightarrow> ('p, 'b) step) \<Rightarrow> ('p, 'b) step" where
  "bind_step m f =
     (case m of
        (tr, Inl e) \<Rightarrow> (tr, Inl e)
      | (tr, Inr a) \<Rightarrow> (case f a of (tr', r) \<Rightarrow> (tr @ tr', r)))"

definition emit :: "'p call list \<Rightarrow> ('p, unit) step" where
  "emit cs = (cs, Inr ())"

definition lift :: "error + 'a \<Rightarrow> ('p, 'a) step" where
  "lift r = ([], r)"

text \<open>\<^verbatim>\<open>d[k]\<close> on a dict raises \<^verbatim>\<open>KeyError\<close> for a missing key.\<close>

definition getitem :: "(string \<rightharpoonup> 'v) \<Rightarrow> string \<Rightarrow> error + 'v" where
  "getitem d k = (case d k of None \<Rightarrow> Inl (KeyError k) | Some v \<Rightarrow> Inr v)"

text \<open>Python's \<^verbatim>\<open>round\<close> of a float: to the nearest integer, a tie to the even one.\<close>

definition py_round :: "real \<Rightarrow> int" where
  "py_round x =
     (let f = \<lfloor>x\<rfloor>; d = x - of_int f
      in if d < 1 / 2 then f
         else if 1 / 2 < d then f + 1
         else if even f then f else f + 1)"

text \<open>
  \<^verbatim>\<open>np.linspace(start, stop, num)\<close> with the endpoint included: a negative \<^verbatim>\<open>num\<close>
  raises, one sample is \<^verbatim>\<open>start\<close>, and from two samples on the last one is set to
  \<^verbatim>\<open>stop\<close>.
\<close>

definition linspace :: "real \<Rightarrow> real \<Rightarrow> int \<Rightarrow> error + real list" where
  "linspace start stop num =
     (if num < 0 then Inl ValueError
      else let n = nat num; dv = n - 1; delta = stop - start; y = map real [0..<n]
           in if 0 < dv
              then Inr ((map (\<lambda>v. v * (delta / real dv) + start) y)[n - 1 := stop])
              else Inr (map (\<lambda>v. v * delta + start) y))"

text \<open>
  Lines 84 to 94, "figure out frequencies": the three assertions, then the intermediate
  frequencies, the NCO frequency and the swept control frequencies.
\<close>

definition frequencies ::
  "'p sdk \<Rightarrow> ramsey_chevron \<Rightarrow> ('p, real list \<times> real \<times> real list) step" where
  "frequencies env self =
     (if \<not> hardware_present env then ([], Inl (AssertionError ''pls.hardware is not None''))
      else if \<not> (control_freq_center self > control_freq_span self / 2)
      then ([], Inl (AssertionError ''self.control_freq_center > (self.control_freq_span / 2)''))
      else if \<not> (control_freq_span self < get_fs env ''dac'' / 2)
      then ([GetFs ''dac''],
            Inl (AssertionError ''self.control_freq_span < pls.get_fs(dac) / 2''))
      else
        let control_if_center = get_fs env ''dac'' / 4;
            control_if_start = control_if_center - control_freq_span self / 2;
            control_if_stop = control_if_center + control_freq_span self / 2
        in case linspace control_if_start control_if_stop (control_freq_nr self) of
             Inl e \<Rightarrow> ([GetFs ''dac'', GetFs ''dac''], Inl e)
           | Inr control_if_arr \<Rightarrow>
               let control_nco = control_freq_center self - control_if_center
               in ([GetFs ''dac'', GetFs ''dac''],
                   Inr (control_if_arr, control_nco, map (\<lambda>f. control_nco + f) control_if_arr)))"

text \<open>Lines 96 to 119: converter settings, the two mixers and the optional JPA pump and bias.\<close>

definition configure_hardware :: "ramsey_chevron \<Rightarrow> real \<Rightarrow> ('p, unit) step" where
  "configure_hardware self control_nco =
     bind_step (emit [
        SetAdcAttenuation (sample_port self) 0,
        SetDacCurrent (readout_port self) DAC_CURRENT,
        SetDacCurrent (control_port self) DAC_CURRENT,
        SetInvSinc (readout_port self) 0,
        SetInvSinc (control_port self) 0,
        ConfigureMixer (readout_freq self) (Some (sample_port self)) (readout_port self) False,
        ConfigureMixer control_nco None (control_port self) True]) (\<lambda>_.
     case jpa_params self of
       None \<Rightarrow> emit []
     | Some d \<Rightarrow>
         bind_step (lift (getitem d ''pump_freq'')) (\<lambda>pump_freq.
         bind_step (lift (getitem d ''pump_pwr'')) (\<lambda>pump_pwr.
         bind_step (lift (getitem d ''pump_port'')) (\<lambda>pump_port.
         bind_step (emit [SetLmx pump_freq pump_pwr pump_port]) (\<lambda>_.
         bind_step (lift (getitem d ''bias'')) (\<lambda>bias.
         bind_step (lift (getitem d ''bias_port'')) (\<lambda>bias_port.
         emit [SetDcBias bias bias_port, Sleep 1 False])))))))"

text \<open>The control template of lines 168 to 178.\<close>

definition control_envelope :: "'p sdk \<Rightarrow> ramsey_chevron \<Rightarrow> complex list" where
  "control_envelope env self =
     (let control_ns = py_round (control_duration self * get_fs env ''dac'');
          envelope = map (\<lambda>z. of_real (control_amp self) * z) (sin2 env control_ns (drag self))
      in if drag self = 0
         then map (\<lambda>z. z * of_real (sqrt 2)) envelope
         else map (\<lambda>z. z * (of_real (sqrt 2) * cis (pi / 4))) envelope)"

text \<open>
  Lines 127 to 190: lookup tables, the readout pulse, the control template and the
  sampling window. The value is the pair of pulse handles.
\<close>

definition setup_measurement ::
  "'p sdk \<Rightarrow> ramsey_chevron \<Rightarrow> real list \<Rightarrow> ('p, 'p \<times> 'p) step" where
  "setup_measurement env self control_if_arr =
     ([SetupFreqLut (readout_port self) 0 [0] [0] [0],
       SetupFreqLut (control_port self) 0 control_if_arr
         (map (\<lambda>_. 0) control_if_arr) (map (\<lambda>_. - pi / 2) control_if_arr),
       SetupScaleLut (readout_port self) 0 (readout_amp self),
       SetupScaleLut (control_port self) 0 1,
       SetupLongDrive (readout_port self) 0 (readout_duration self) 1 1 0 0,
       GetFs ''dac'',
       SetupTemplate (control_port self) 0 (control_envelope env self)
         (if drag self = 0 then Some (control_envelope env self) else None) True,
       SetStorePorts (sample_port self),
       SetStoreDuration (sample_duration self)],
      Inr (long_drive env, template env))"

text \<open>
  The loop of lines 195 to 212 over \<^verbatim>\<open>delay_arr\<close>: the calls it issues from time
  \<open>T\<close> on, and the time it ends with.
\<close>

fun pulse_loop :: "ramsey_chevron \<Rightarrow> 'p \<Rightarrow> 'p \<Rightarrow> real \<Rightarrow> real list \<Rightarrow> 'p call list \<times> real" where
  "pulse_loop self control_pulse readout_pulse T [] = ([], T)"
| "pulse_loop self control_pulse readout_pulse T (delay # rest) =
     (let c1 = [ResetPhase T (control_port self), OutputPulse T control_pulse];
          T1 = T + control_duration self;
          T2 = T1 + delay;
          c2 = [OutputPulse T2 control_pulse];
          T3 = T2 + control_duration self;
          c3 = [ResetPhase T3 (readout_port self), OutputPulse T3 readout_pulse,
                Store (T3 + readout_sample_delay self)];
          T4 = T3 + readout_duration self;
          T5 = T4 + wait_delay self;
          (cs, T') = pulse_loop self control_pulse readout_pulse T5 rest
      in (c1 @ c2 @ c3 @ cs, T'))"

text \<open>
  Lines 195 to 214: the loop, then the frequency step and the last wait. The loop runs
  over the first axis of \<^verbatim>\<open>delay_arr\<close>. Of a one-dimensional array these are the
  delays. An array of dimension zero cannot be iterated. Of an array of more dimensions
  they are arrays: adding the first of them makes the time an array, and the interface,
  which takes a float as time, is taken to refuse it at the second control pulse.
\<close>

definition program_sequence :: "ramsey_chevron \<Rightarrow> 'p \<Rightarrow> 'p \<Rightarrow> ('p, real) step" where
  "program_sequence self control_pulse readout_pulse =
     (case shape (delay_arr self) of
        [] \<Rightarrow> ([], Inl TypeError)
      | [n] \<Rightarrow>
          (let (cs, T) = pulse_loop self control_pulse readout_pulse 0 (data (delay_arr self))
           in (cs @ [NextFrequency T (control_port self)], Inr (T + wait_delay self)))
      | n # m # rest \<Rightarrow>
          if n = 0
          then ([NextFrequency 0 (control_port self)], Inr (0 + wait_delay self))
          else ([ResetPhase 0 (control_port self), OutputPulse 0 control_pulse],
                Inl TypeError))"

text \<open>Lines 216 to 228: with a JPA the period is moved off the idler period.\<close>

definition adjust_period :: "'p sdk \<Rightarrow> ramsey_chevron \<Rightarrow> real \<Rightarrow> ('p, real) step" where
  "adjust_period env self T =
     (case jpa_params self of
        None \<Rightarrow> lift (Inr T)
      | Some d \<Rightarrow>
          bind_step (lift (getitem d ''pump_freq'')) (\<lambda>pump_freq.
          let idler_freq = pump_freq - readout_freq self;
              idler_if = \<bar>idler_freq - readout_freq self\<bar>
          in if idler_if = 0 then lift (Inl ZeroDivisionError)
             else
               let idler_period = 1 / idler_if;
                   T_clk = py_round (T * get_clk_f env);
                   idler_period_clk = py_round (idler_period * get_clk_f env)
               in if idler_period_clk = 0 then ([GetClkF, GetClkF], Inl ZeroDivisionError)
                  else
                    let T_clk1 = (if T_clk mod idler_period_clk > 0
                                  then T_clk + (idler_period_clk - T_clk mod idler_period_clk)
                                  else T_clk);
                        T_clk2 = T_clk1 + 1
                    in ([GetClkF, GetClkF, GetClkT], Inr (of_int T_clk2 * get_clk_T env))))"

text \<open>Lines 241 to 243: pump and bias are switched off.\<close>

definition jpa_off :: "ramsey_chevron \<Rightarrow> ('p, unit) step" where
  "jpa_off self =
     (case jpa_params self of
        None \<Rightarrow> emit []
      | Some d \<Rightarrow>
          bind_step (lift (getitem d ''pump_port'')) (\<lambda>pump_port.
          bind_step (emit [SetLmx 0 0 pump_port]) (\<lambda>_.
          bind_step (lift (getitem d ''bias_port'')) (\<lambda>bias_port.
          emit [SetDcBias 0 bias_port]))))"

text \<open>Lines 96 to 238: everything between the frequencies and the stored data.\<close>

definition run_experiment ::
  "'p sdk \<Rightarrow> ramsey_chevron \<Rightarrow> real list \<Rightarrow> real \<Rightarrow> ('p, unit) step" where
  "run_experiment env self control_if_arr control_nco =
     bind_step (configure_hardware self control_nco) (\<lambda>_.
     bind_step (setup_measurement env self control_if_arr) (\<lambda>(readout_pulse, control_pulse).
     bind_step (program_sequence self control_pulse readout_pulse) (\<lambda>T.
     bind_step (adjust_period env self T) (\<lambda>T.
     emit [Run T (control_freq_nr self) (num_averages self) True]))))"

record 'p run_out =
  calls :: "'p call list"
  inst :: ramsey_chevron
  files :: filesystem
  outcome :: "error + string"

text \<open>
  \<^verbatim>\<open>RamseyChevron.run\<close>. The \<^verbatim>\<open>with\<close> block opens the interface and closes it
  on every path; \<^verbatim>\<open>save\<close> is called after the block, when nothing was raised.
\<close>

definition run ::
  "'p sdk \<Rightarrow> filesystem \<Rightarrow> ramsey_chevron \<Rightarrow> string \<Rightarrow> int option \<Rightarrow> bool \<Rightarrow> 'p run_out" where
  "run env fs self presto_address presto_port ext_ref_clk =
     (let enter = PulsedEnter presto_address presto_port ext_ref_clk
      in case frequencies env self of
        (tr1, Inl e) \<Rightarrow>
          \<lparr> calls = enter # tr1 @ [PulsedExit], inst = self, files = fs, outcome = Inl e \<rparr>
      | (tr1, Inr (control_if_arr, control_nco, freq_arr)) \<Rightarrow>
          (let self1 = self\<lparr> control_freq_arr := Some freq_arr \<rparr>
           in case run_experiment env self1 control_if_arr control_nco of
             (tr2, Inl e) \<Rightarrow>
               \<lparr> calls = enter # tr1 @ tr2 @ [PulsedExit], inst = self1, files = fs,
                 outcome = Inl e \<rparr>
           | (tr2, Inr _) \<Rightarrow>
               (let self2 = self1\<lparr> t_arr := Some (fst (get_store_data env)),
                                   store_arr := Some (snd (get_store_data env)) \<rparr>
                in case jpa_off self2 of
                  (tr3, Inl e) \<Rightarrow>
                    \<lparr> calls = enter # tr1 @ tr2 @ [GetStoreData] @ tr3 @ [PulsedExit],
                      inst = self2, files = fs, outcome = Inl e \<rparr>
                | (tr3, Inr _) \<Rightarrow>
                    (case save env fs self2 None of
                       Inl e \<Rightarrow>
                         \<lparr> calls = enter # tr1 @ tr2 @ [GetStoreData] @ tr3 @
                                     [PulsedExit, BaseSave None],
                           inst = self2, files = fs, outcome = Inl e \<rparr>
                     | Inr (fs', filename) \<Rightarrow>
                         \<lparr> calls = enter # tr1 @ tr2 @ [GetStoreData] @ tr3 @
                                     [PulsedExit, BaseSave None],
                           inst = self2, files = fs', outcome = Inr filename \<rparr>))))"

section \<open>Loading\<close>

definition bind_err :: "error + 'a \<Rightarrow> ('a \<Rightarrow> error + 'b) \<Rightarrow> error + 'b" where
  "bind_err m f = (case m of Inl e \<Rightarrow> Inl e | Inr a \<Rightarrow> f a)"

text \<open>
  The record of the instance is typed, the content of a file is not. A value of the wrong
  kind, and an array of another dimension than one for \<^verbatim>\<open>control_freq_arr\<close> or
  \<^verbatim>\<open>t_arr\<close>, is refused with \<^verbatim>\<open>TypeError\<close> when the constructor is called, after
  every read has been made; Python would carry the value to its first use.
\<close>

fun as_float :: "attr \<Rightarrow> error + real" where
  "as_float (AFloat x) = Inr x"
| "as_float (AInt i) = Inr (of_int i)"
| "as_float (AStr s) = Inl TypeError"

fun as_int :: "attr \<Rightarrow> error + int" where
  "as_int (AInt i) = Inr i"
| "as_int (AFloat x) = Inl TypeError"
| "as_int (AStr s) = Inl TypeError"

fun as_float_array :: "dataset \<Rightarrow> error + real ndarray" where
  "as_float_array (FloatND a) = Inr a"
| "as_float_array (ComplexND a) = Inl TypeError"

fun as_float_list :: "dataset \<Rightarrow> error + real list" where
  "as_float_list (FloatND a) = (case shape a of [n] \<Rightarrow> Inr (data a) | _ \<Rightarrow> Inl TypeError)"
| "as_float_list (ComplexND a) = Inl TypeError"

fun as_complex_array :: "dataset \<Rightarrow> error + complex ndarray" where
  "as_complex_array (ComplexND a) = Inr a"
| "as_complex_array (FloatND a) = Inl TypeError"

text \<open>\<^verbatim>\<open>ast.literal_eval\<close> takes a string; any other value is malformed.\<close>

fun eval_attr :: "'p sdk \<Rightarrow> attr \<Rightarrow> error + (string \<rightharpoonup> real) option" where
  "eval_attr env (AStr s) = literal_eval env s"
| "eval_attr env (AFloat x) = Inl ValueError"
| "eval_attr env (AInt i) = Inl ValueError"

text \<open>Lines 276 to 279: only a missing \<^verbatim>\<open>drag\<close> attribute is replaced by its default.\<close>

definition read_drag :: "h5file \<Rightarrow> attr" where
  "read_drag h5f = (case attrs h5f ''drag'' of None \<Rightarrow> AFloat 0 | Some v \<Rightarrow> v)"

text \<open>What lines 253 to 279 read from the file, in the order of the source.\<close>

record raw_fields =
  r_readout_freq :: attr
  r_control_freq_center :: attr
  r_control_freq_span :: attr
  r_control_freq_nr :: attr
  r_readout_amp :: attr
  r_control_amp :: attr
  r_readout_duration :: attr
  r_control_duration :: attr
  r_sample_duration :: attr
  r_delay_arr :: dataset
  r_readout_port :: attr
  r_control_port :: attr
  r_sample_port :: attr
  r_wait_delay :: attr
  r_readout_sample_delay :: attr
  r_num_averages :: attr
  r_jpa_params :: "(string \<rightharpoonup> real) option"
  r_control_freq_arr :: dataset
  r_t_arr :: dataset
  r_store_arr :: dataset
  r_drag :: attr

definition read_fields :: "'p sdk \<Rightarrow> h5file \<Rightarrow> error + raw_fields" where
  "read_fields env h5f =
     bind_err (getitem (attrs h5f) ''readout_freq'') (\<lambda>v1.
     bind_err (getitem (attrs h5f) ''control_freq_center'') (\<lambda>v2.
     bind_err (getitem (attrs h5f) ''control_freq_span'') (\<lambda>v3.
     bind_err (getitem (attrs h5f) ''control_freq_nr'') (\<lambda>v4.
     bind_err (getitem (attrs h5f) ''readout_amp'') (\<lambda>v5.
     bind_err (getitem (attrs h5f) ''control_amp'') (\<lambda>v6.
     bind_err (getitem (attrs h5f) ''readout_duration'') (\<lambda>v7.
     bind_err (getitem (attrs h5f) ''control_duration'') (\<lambda>v8.
     bind_err (getitem (attrs h5f) ''sample_duration'') (\<lambda>v9.
     bind_err (getitem (datasets h5f) ''delay_arr'') (\<lambda>v10.
     bind_err (getitem (attrs h5f) ''readout_port'') (\<lambda>v11.
     bind_err (getitem (attrs h5f) ''control_port'') (\<lambda>v12.
     bind_err (getitem (attrs h5f) ''sample_port'') (\<lambda>v13.
     bind_err (getitem (attrs h5f) ''wait_delay'') (\<lambda>v14.
     bind_err (getitem (attrs h5f) ''readout_sample_delay'') (\<lambda>v15.
     bind_err (getitem (attrs h5f) ''num_averages'') (\<lambda>v16.
     bind_err (getitem (attrs h5f) ''jpa_params'') (\<lambda>jpa_text.
     bind_err (eval_attr env jpa_text) (\<lambda>v17.
     bind_err (getitem (datasets h5f) ''control_freq_arr'') (\<lambda>v18.
     bind_err (getitem (datasets h5f) ''t_arr'') (\<lambda>v19.
     bind_err (getitem (datasets h5f) ''store_arr'') (\<lambda>v20.
     Inr \<lparr> r_readout_freq = v1, r_control_freq_center = v2, r_control_freq_span = v3,
           r_control_freq_nr = v4, r_readout_amp = v5, r_control_amp = v6,
           r_readout_duration = v7, r_control_duration = v8, r_sample_duration = v9,
           r_delay_arr = v10, r_readout_port = v11, r_control_port = v12,
           r_sample_port = v13, r_wait_delay = v14, r_readout_sample_delay = v15,
           r_num_averages = v16, r_jpa_params = v17, r_control_freq_arr = v18,
           r_t_arr = v19, r_store_arr = v20, r_drag = read_drag h5f \<rparr>
     )))))))))))))))))))))"

text \<open>
  Lines 281 to 305: the constructor call and the three arrays. The delay array of a file
  goes through \<^verbatim>\<open>np.atleast_1d\<close> and \<^verbatim>\<open>astype\<close> again. In the instance
  \<^verbatim>\<open>control_freq_arr\<close> and \<^verbatim>\<open>t_arr\<close> are one-dimensional.
\<close>

definition construct :: "raw_fields \<Rightarrow> error + ramsey_chevron" where
  "construct r =
     bind_err (as_float (r_readout_freq r)) (\<lambda>readout_freq'.
     bind_err (as_float (r_control_freq_center r)) (\<lambda>control_freq_center'.
     bind_err (as_float (r_control_freq_span r)) (\<lambda>control_freq_span'.
     bind_err (as_int (r_control_freq_nr r)) (\<lambda>control_freq_nr'.
     bind_err (as_float (r_readout_amp r)) (\<lambda>readout_amp'.
     bind_err (as_float (r_control_amp r)) (\<lambda>control_amp'.
     bind_err (as_float (r_readout_duration r)) (\<lambda>readout_duration'.
     bind_err (as_float (r_control_duration r)) (\<lambda>control_duration'.
     bind_err (as_float (r_sample_duration r)) (\<lambda>sample_duration'.
     bind_err (as_float_array (r_delay_arr r)) (\<lambda>delay_arr'.
     bind_err (as_int (r_readout_port r)) (\<lambda>readout_port'.
     bind_err (as_int (r_control_port r)) (\<lambda>control_port'.
     bind_err (as_int (r_sample_port r)) (\<lambda>sample_port'.
     bind_err (as_float (r_wait_delay r)) (\<lambda>wait_delay'.
     bind_err (as_float (r_readout_sample_delay r)) (\<lambda>readout_sample_delay'.
     bind_err (as_int (r_num_averages r)) (\<lambda>num_averages'.
     bind_err (as_float (r_drag r)) (\<lambda>drag'.
     bind_err (as_float_list (r_control_freq_arr r)) (\<lambda>control_freq_arr'.
     bind_err (as_float_list (r_t_arr r)) (\<lambda>t_arr'.
     bind_err (as_complex_array (r_store_arr r)) (\<lambda>store_arr'.
     Inr ((init readout_freq' control_freq_center' control_freq_span' control_freq_nr'
             readout_amp' control_amp' readout_duration' control_duration' sample_duration'
             (Array \<lparr> shape = shape delay_arr', data = map PyFloat (data delay_arr') \<rparr>)
             readout_port' control_port' sample_port'
             wait_delay' readout_sample_delay' num_averages' (r_jpa_params r) drag')
           \<lparr> control_freq_arr := Some control_freq_arr',
             t_arr := Some t_arr',
             store_arr := Some store_arr' \<rparr>)
     ))))))))))))))))))))"

text \<open>\<^verbatim>\<open>RamseyChevron.load\<close>: a name without a file cannot be opened.\<close>

definition load :: "'p sdk \<Rightarrow> filesystem \<Rightarrow> string \<Rightarrow> error + ramsey_chevron" where
  "load env fs load_filename =
     (case fs load_filename of
        None \<Rightarrow> Inl OSError
      | Some h5f \<Rightarrow> bind_err (read_fields env h5f) construct)"

definition required_attrs :: "string list" where
  "required_attrs =
     [''readout_freq'', ''control_freq_center'', ''control_freq_span'', ''control_freq_nr'',
      ''readout_amp'', ''control_amp'', ''readout_duration'', ''control_duration'',
      ''sample_duration'', ''readout_port'', ''control_port'', ''sample_port'',
      ''wait_delay'', ''readout_sample_delay'', ''num_averages'', ''jpa_params'']"

definition required_datasets :: "string list" where
  "required_datasets = [''delay_arr'', ''control_freq_arr'', ''t_arr'', ''store_arr'']"

section \<open>Analysis\<close>

text \<open>
  A float that may be non-finite: the fit results, where the program writes NaN for a
  fit that failed.
\<close>

datatype fl = Finite real | PosInf | NegInf | NaN

fun np_abs :: "fl \<Rightarrow> fl" where
  "np_abs (Finite x) = Finite \<bar>x\<bar>"
| "np_abs PosInf = PosInf"
| "np_abs NegInf = PosInf"
| "np_abs NaN = NaN"

text \<open>\<^verbatim>\<open>xs[i]\<close> with a non-negative index.\<close>

definition item :: "'a list \<Rightarrow> nat \<Rightarrow> error + 'a" where
  "item xs i = (if i < length xs then Inr (xs ! i) else Inl IndexError)"

text \<open>
  \<^verbatim>\<open>store_arr[:, 0, idx]\<close>: of a three-dimensional array, port 0 and the samples
  \<open>idx\<close> of every row. The interface returns a three-dimensional array; an array of
  another dimension is refused.
\<close>

definition take_port0 :: "complex ndarray \<Rightarrow> nat list \<Rightarrow> error + complex ndarray" where
  "take_port0 s idx =
     (case shape s of
        [R, P, S] \<Rightarrow>
          if P = 0 \<or> (\<exists>i \<in> set idx. S \<le> i) then Inl IndexError
          else Inr \<lparr> shape = [R, length idx],
                     data = concat (map (\<lambda>r. map (\<lambda>i. data s ! ((r * P + 0) * S + i)) idx)
                                        [0..<R]) \<rparr>
      | _ \<Rightarrow> Inl IndexError)"

text \<open>\<^verbatim>\<open>np.mean(a, axis=-1)\<close> of a two-dimensional array with a non-empty last axis.\<close>

definition mean :: "complex list \<Rightarrow> complex" where
  "mean zs = sum_list zs / of_nat (length zs)"

definition mean_last :: "complex ndarray \<Rightarrow> complex ndarray" where
  "mean_last a =
     (let R = shape a ! 0; n = shape a ! 1
      in \<lparr> shape = [R], data = map (\<lambda>r. mean (take n (drop (r * n) (data a)))) [0..<R] \<rparr>)"

text \<open>Assigning \<^verbatim>\<open>a.shape = (rows, cols)\<close> needs as many elements as the array has.\<close>

definition set_shape :: "'a ndarray \<Rightarrow> nat \<Rightarrow> nat \<Rightarrow> error + 'a ndarray" where
  "set_shape a rows cols =
     (if rows * cols = length (data a) then Inr (a\<lparr> shape := [rows, cols] \<rparr>)
      else Inl ValueError)"

text \<open>Element \<open>(j, k)\<close> and row \<open>j\<close> of a two-dimensional array.\<close>

definition at2 :: "'a ndarray \<Rightarrow> nat \<Rightarrow> nat \<Rightarrow> 'a" where
  "at2 a j k = data a ! (j * (shape a ! 1) + k)"

definition row :: "'a ndarray \<Rightarrow> nat \<Rightarrow> 'a list" where
  "row a j = take (shape a ! 1) (drop (j * (shape a ! 1)) (data a))"

text \<open>Element \<open>(r, p, i)\<close> of a three-dimensional array.\<close>

definition at3 :: "'a ndarray \<Rightarrow> nat \<Rightarrow> nat \<Rightarrow> nat \<Rightarrow> 'a" where
  "at3 a r p i = data a ! ((r * (shape a ! 1) + p) * (shape a ! 2) + i)"

text \<open>\<^verbatim>\<open>len(a)\<close> is the length of the first axis; an array of dimension zero has none.\<close>

definition len :: "'a ndarray \<Rightarrow> error + nat" where
  "len a = (case shape a of [] \<Rightarrow> Inl TypeError | n # rest \<Rightarrow> Inr n)"

text \<open>\<^verbatim>\<open>a[i]\<close> and \<^verbatim>\<open>a[-1]\<close> need the index on the first axis.\<close>

definition has_item :: "'a ndarray \<Rightarrow> nat \<Rightarrow> error + unit" where
  "has_item a i = (case shape a of [] \<Rightarrow> Inl IndexError
                   | n # rest \<Rightarrow> if i < n then Inr () else Inl IndexError)"

definition has_last :: "'a ndarray \<Rightarrow> error + unit" where
  "has_last a = (case shape a of [] \<Rightarrow> Inl IndexError
                 | n # rest \<Rightarrow> if 0 < n then Inr () else Inl IndexError)"

text \<open>
  Lines 308 to 336 of \<^verbatim>\<open>analyze\<close>: the assertions, the two reads of the time axis,
  the plot of the first store against the time axis when all plots are asked for, which
  needs the store to exist and as many times as samples, and the response map.
\<close>

definition response_map :: "ramsey_chevron \<Rightarrow> bool \<Rightarrow> error + complex ndarray" where
  "response_map self all_plots =
     (case t_arr self of
        None \<Rightarrow> Inl (AssertionError ''self.t_arr is not None'')
      | Some t \<Rightarrow>
     (case store_arr self of
        None \<Rightarrow> Inl (AssertionError ''self.store_arr is not None'')
      | Some s \<Rightarrow>
     (case control_freq_arr self of
        None \<Rightarrow> Inl (AssertionError ''self.control_freq_arr is not None'')
      | Some f \<Rightarrow>
          if int (length f) \<noteq> control_freq_nr self
          then Inl (AssertionError ''len(self.control_freq_arr) == self.control_freq_nr'')
          else
            bind_err (item t IDX_LOW) (\<lambda>t_low.
            bind_err (item t IDX_HIGH) (\<lambda>t_high.
            bind_err (if all_plots
                      then (case shape s of
                              [R, P, S] \<Rightarrow>
                                if R = 0 \<or> P = 0 then Inl IndexError
                                else if length t \<noteq> S then Inl ValueError
                                else Inr ()
                            | _ \<Rightarrow> Inl IndexError)
                      else Inr ()) (\<lambda>_.
            bind_err (take_port0 s [IDX_LOW..<IDX_HIGH]) (\<lambda>sel.
            bind_err (len (delay_arr self)) (\<lambda>nd.
            set_shape (mean_last sel) (nat (control_freq_nr self)) nd))))))))"

text \<open>
  Lines 337 to 352: the rotated data, its real part and the scaling by the SI prefix.
  The maximum of an empty array raises.
\<close>

definition plot_data :: "'p sdk \<Rightarrow> complex ndarray \<Rightarrow> error + real ndarray" where
  "plot_data env resp_arr =
     (let d = map Re (rotate_opt env (data resp_arr))
      in if d = [] then Inl ValueError
         else
           let data_max = Max (set (map abs d));
               mult = (if data_max < 1 / 10 ^ 6 then 10 ^ 9
                       else if data_max < 1 / 10 ^ 3 then 10 ^ 6
                       else if data_max < 1 then 10 ^ 3
                       else 1)
           in Inr \<lparr> shape = shape resp_arr, data = map (\<lambda>v. v * mult) d \<rparr>)"

text \<open>Lines 360 to 365: the extent of the image reads the first two and the last element.\<close>

definition extent :: "ramsey_chevron \<Rightarrow> real list \<Rightarrow> error + unit" where
  "extent self f =
     bind_err (has_item (delay_arr self) 0) (\<lambda>_.
     bind_err (has_last (delay_arr self)) (\<lambda>_.
     bind_err (has_item (delay_arr self) 1) (\<lambda>_.
     bind_err (item f 0) (\<lambda>_.
     bind_err (item f (length f - 1)) (\<lambda>_.
     bind_err (item f 1) (\<lambda>_. Inr ()))))))"

text \<open>
  The five fit parameters: offset, amplitude, T2, frequency and phase. \<^verbatim>\<open>_fit_simple\<close>
  is numpy's FFT for the first guess and scipy's \<^verbatim>\<open>curve_fit\<close>; its outcome on a row,
  the parameters with their errors or an exception, is a parameter of the model.
\<close>

type_synonym params = "fl \<times> fl \<times> fl \<times> fl \<times> fl"

type_synonym fit = "real ndarray \<Rightarrow> real list \<Rightarrow> error + params \<times> params"

fun param3 :: "params \<Rightarrow> fl" where
  "param3 (offset, amplitude, T2, frequency, phase) = frequency"

text \<open>
  The loop of lines 391 to 397 over the rows \<open>jj\<close>; the handler catches every exception
  of the fit. The assertion on the length of \<^verbatim>\<open>control_freq_arr\<close> makes every
  \<open>jj\<close> of the loop an index of \<^verbatim>\<open>fit_freq\<close> and \<^verbatim>\<open>err_freq\<close>.
\<close>

fun fit_rows :: "fit \<Rightarrow> real ndarray \<Rightarrow> real ndarray \<Rightarrow> nat list \<Rightarrow> fl list \<times> fl list \<Rightarrow>
    fl list \<times> fl list" where
  "fit_rows fit_simple x pd [] (fit_freq, err_freq) = (fit_freq, err_freq)"
| "fit_rows fit_simple x pd (jj # rest) (fit_freq, err_freq) =
     (case fit_simple x (row pd jj) of
        Inr (res, err) \<Rightarrow>
          fit_rows fit_simple x pd rest
            (fit_freq[jj := np_abs (param3 res)], err_freq[jj := param3 err])
      | Inl e \<Rightarrow>
          fit_rows fit_simple x pd rest (fit_freq[jj := NaN], err_freq))"

text \<open>
  \<^verbatim>\<open>analyze\<close> up to line 397: the value is the pair of \<^verbatim>\<open>fit_freq\<close> and
  \<^verbatim>\<open>err_freq\<close>. The plots and the fit of the detuning that follow are not modelled.
\<close>

definition analyze :: "'p sdk \<Rightarrow> fit \<Rightarrow> ramsey_chevron \<Rightarrow> bool \<Rightarrow> error + fl list \<times> fl list" where
  "analyze env fit_simple self all_plots =
     bind_err (response_map self all_plots) (\<lambda>resp_arr.
     bind_err (plot_data env resp_arr) (\<lambda>pd.
     case control_freq_arr self of
       None \<Rightarrow> Inl (AssertionError ''self.control_freq_arr is not None'')
     | Some f \<Rightarrow>
         bind_err (extent self f) (\<lambda>_.
         let zeros = replicate (length f) (Finite 0)
         in Inr (fit_rows fit_simple (delay_arr self) pd
                   [0..<nat (control_freq_nr self)] (zeros, zeros)))))"

section \<open>The pulse sequence as the claims describe it\<close>

text \<open>The calls that place something on the time line of the sequence.\<close>

fun is_timeline_call :: "'p call \<Rightarrow> bool" where
  "is_timeline_call (ResetPhase t port) = True"
| "is_timeline_call (OutputPulse t p) = True"
| "is_timeline_call (Store t) = True"
| "is_timeline_call (NextFrequency t port) = True"
| "is_timeline_call c = False"

text \<open>The same calls, and the call that starts the experiment.\<close>

fun is_sequence_call :: "'p call \<Rightarrow> bool" where
  "is_sequence_call (ResetPhase t port) = True"
| "is_sequence_call (OutputPulse t p) = True"
| "is_sequence_call (Store t) = True"
| "is_sequence_call (NextFrequency t port) = True"
| "is_sequence_call (Run period repeat_count averages print_time) = True"
| "is_sequence_call c = False"

text \<open>
  The calls of one delay, from time \<open>t\<close> on: two control pulses whose start times differ
  by \<^verbatim>\<open>control_duration + delay\<close>, the readout pulse \<open>gap\<close> after the start of the
  second control pulse, and the store \<^verbatim>\<open>readout_sample_delay\<close> after the readout.
\<close>

definition delay_block ::
  "real \<Rightarrow> ramsey_chevron \<Rightarrow> 'p \<Rightarrow> 'p \<Rightarrow> real \<Rightarrow> real \<Rightarrow> 'p call list" where
  "delay_block gap self control_pulse readout_pulse t delay =
     (let second = t + (control_duration self + delay);
          readout = second + gap
      in [ResetPhase t (control_port self), OutputPulse t control_pulse,
          OutputPulse second control_pulse,
          ResetPhase readout (readout_port self), OutputPulse readout readout_pulse,
          Store (readout + readout_sample_delay self)])"

text \<open>The time one delay takes.\<close>

definition delay_period :: "ramsey_chevron \<Rightarrow> real \<Rightarrow> real" where
  "delay_period self delay =
     2 * control_duration self + delay + readout_duration self + wait_delay self"

text \<open>One block per delay, in order, each starting when the one before is over.\<close>

fun schedule ::
  "real \<Rightarrow> ramsey_chevron \<Rightarrow> 'p \<Rightarrow> 'p \<Rightarrow> real \<Rightarrow> real list \<Rightarrow> 'p call list" where
  "schedule gap self control_pulse readout_pulse t [] = []"
| "schedule gap self control_pulse readout_pulse t (delay # rest) =
     delay_block gap self control_pulse readout_pulse t delay
     @ schedule gap self control_pulse readout_pulse (t + delay_period self delay) rest"

text \<open>
  The sequence with the frequency step and the start of the experiment at its end. The
  second control pulse lasts \<^verbatim>\<open>control_duration\<close>: with the readout at its end the
  gap is \<^verbatim>\<open>control_duration\<close>, with the readout \<^verbatim>\<open>control_duration\<close> after its end
  the gap is twice that.
\<close>

definition sequence_calls :: "real \<Rightarrow> 'p sdk \<Rightarrow> ramsey_chevron \<Rightarrow> 'p call list" where
  "sequence_calls gap env self =
     (let T = sum_list (map (delay_period self) (data (delay_arr self)))
      in schedule gap self (template env) (long_drive env) 0 (data (delay_arr self))
         @ [NextFrequency T (control_port self),
            Run (T + wait_delay self) (control_freq_nr self) (num_averages self) True])"

text \<open>
  JPA parameters that have every key \<^verbatim>\<open>run\<close> reads, or no JPA parameters at all.
\<close>

definition jpa_complete :: "ramsey_chevron \<Rightarrow> bool" where
  "jpa_complete self =
     (case jpa_params self of
        None \<Rightarrow> True
      | Some d \<Rightarrow> d ''pump_freq'' \<noteq> None \<and> d ''pump_pwr'' \<noteq> None \<and> d ''pump_port'' \<noteq> None
                  \<and> d ''bias'' \<noteq> None \<and> d ''bias_port'' \<noteq> None)"

section \<open>The calls of a run as the claims describe them\<close>

text \<open>
  The configuration of the hardware from the constructor parameters: attenuation, DAC
  currents, inverse sinc filters and the two mixers, the control mixer at \<open>control_nco\<close>.
\<close>

definition hardware_configuration :: "ramsey_chevron \<Rightarrow> real \<Rightarrow> 'p call list" where
  "hardware_configuration self control_nco =
     [SetAdcAttenuation (sample_port self) 0,
      SetDacCurrent (readout_port self) 32000,
      SetDacCurrent (control_port self) 32000,
      SetInvSinc (readout_port self) 0,
      SetInvSinc (control_port self) 0,
      ConfigureMixer (readout_freq self) (Some (sample_port self)) (readout_port self) False,
      ConfigureMixer control_nco None (control_port self) True]"

text \<open>With JPA parameters: pump and bias are switched on, and off at the end.\<close>

definition jpa_on_calls :: "ramsey_chevron \<Rightarrow> 'p call list" where
  "jpa_on_calls self =
     (case jpa_params self of
        None \<Rightarrow> []
      | Some d \<Rightarrow>
          (case (d ''pump_freq'', d ''pump_pwr'', d ''pump_port'', d ''bias'', d ''bias_port'') of
             (Some pump_freq, Some pump_pwr, Some pump_port, Some bias, Some bias_port) \<Rightarrow>
               [SetLmx pump_freq pump_pwr pump_port, SetDcBias bias bias_port, Sleep 1 False]
           | _ \<Rightarrow> []))"

definition jpa_off_calls :: "ramsey_chevron \<Rightarrow> 'p call list" where
  "jpa_off_calls self =
     (case jpa_params self of
        None \<Rightarrow> []
      | Some d \<Rightarrow>
          (case (d ''pump_port'', d ''bias_port'') of
             (Some pump_port, Some bias_port) \<Rightarrow> [SetLmx 0 0 pump_port, SetDcBias 0 bias_port]
           | _ \<Rightarrow> []))"

text \<open>With JPA parameters the clock is asked three times for the period.\<close>

definition clock_calls :: "ramsey_chevron \<Rightarrow> 'p call list" where
  "clock_calls self = (case jpa_params self of None \<Rightarrow> [] | Some d \<Rightarrow> [GetClkF, GetClkF, GetClkT])"

text \<open>
  The configuration of the pulses: frequency and scale lookup tables, the readout pulse,
  the control template and the sampling window, for the intermediate frequencies
  \<open>control_if_arr\<close>.
\<close>

definition pulse_configuration :: "'p sdk \<Rightarrow> ramsey_chevron \<Rightarrow> real list \<Rightarrow> 'p call list" where
  "pulse_configuration env self control_if_arr =
     [SetupFreqLut (readout_port self) 0 [0] [0] [0],
      SetupFreqLut (control_port self) 0 control_if_arr
        (map (\<lambda>_. 0) control_if_arr) (map (\<lambda>_. - pi / 2) control_if_arr),
      SetupScaleLut (readout_port self) 0 (readout_amp self),
      SetupScaleLut (control_port self) 0 1,
      SetupLongDrive (readout_port self) 0 (readout_duration self) 1 1 0 0,
      GetFs ''dac'',
      SetupTemplate (control_port self) 0 (control_envelope env self)
        (if drag self = 0 then Some (control_envelope env self) else None) True,
      SetStorePorts (sample_port self),
      SetStoreDuration (sample_duration self)]"

text \<open>
  The delays of a run that returns: the elements of a one-dimensional delay array. With
  an array of more dimensions a run returns only when the loop has nothing to run over.
\<close>

definition delays :: "ramsey_chevron \<Rightarrow> real list" where
  "delays self = (case shape (delay_arr self) of [n] \<Rightarrow> data (delay_arr self) | _ \<Rightarrow> [])"

text \<open>
  The calls of a run that returns, in their order: the interface is opened and asked for
  the sampling rate, the hardware and the pulses are configured, the sequence is
  programmed, the experiment is run with period \<open>T\<close>, the data are fetched, the pump
  is switched off, the interface is closed, and the instance is saved.
\<close>

definition run_trace ::
  "'p sdk \<Rightarrow> ramsey_chevron \<Rightarrow> string \<Rightarrow> int option \<Rightarrow> bool \<Rightarrow> real list \<Rightarrow> real \<Rightarrow> 'p call list" where
  "run_trace env self presto_address presto_port ext_ref_clk control_if_arr T =
     [PulsedEnter presto_address presto_port ext_ref_clk, GetFs ''dac'', GetFs ''dac'']
     @ hardware_configuration self (control_freq_center self - get_fs env ''dac'' / 4)
     @ jpa_on_calls self
     @ pulse_configuration env self control_if_arr
     @ schedule (control_duration self) self (template env) (long_drive env) 0 (delays self)
     @ [NextFrequency (sum_list (map (delay_period self) (delays self))) (control_port self)]
     @ clock_calls self
     @ [Run T (control_freq_nr self) (num_averages self) True, GetStoreData]
     @ jpa_off_calls self
     @ [PulsedExit, BaseSave None]"

text \<open>
  Two environments that give \<^verbatim>\<open>run\<close> the same answers: the hardware object, the
  sampling rate of the DAC, the clock, the stored data, the two pulse handles and the
  envelope of the control pulse.
\<close>

definition same_responses :: "'p sdk \<Rightarrow> 'p sdk \<Rightarrow> bool" where
  "same_responses env1 env2 =
     (hardware_present env1 = hardware_present env2
      \<and> get_fs env1 ''dac'' = get_fs env2 ''dac''
      \<and> get_clk_f env1 = get_clk_f env2
      \<and> get_clk_T env1 = get_clk_T env2
      \<and> get_store_data env1 = get_store_data env2
      \<and> long_drive env1 = long_drive env2
      \<and> template env1 = template env2
      \<and> sin2 env1 = sin2 env2)"

text \<open>The constructor parameters of an instance: the instance before \<^verbatim>\<open>run\<close>.\<close>

definition parameters :: "ramsey_chevron \<Rightarrow> ramsey_chevron" where
  "parameters self = self\<lparr> control_freq_arr := None, t_arr := None, store_arr := None \<rparr>"

section \<open>Example inputs\<close>

text \<open>
  An interface with a 10 Hz converter clock that answers every query with a constant, and
  an instance with the control sweep centred at 5 Hz over a span of 2 Hz and the delays
  0 s and 1 s. They are the concrete inputs at which the theorems below are instantiated.
\<close>

definition example_sdk :: "nat sdk" where
  "example_sdk =
     \<lparr> hardware_present = True,
       get_fs = (\<lambda>_. 10),
       get_clk_f = 1,
       get_clk_T = 1,
       long_drive = 0,
       template = 1,
       get_store_data = ([0], \<lparr> shape = [0, 1, 1], data = [] \<rparr>),
       sin2 = (\<lambda>n d. []),
       rotate_opt = (\<lambda>zs. zs),
       py_str = (\<lambda>j. ''None''),
       literal_eval = (\<lambda>s. if s = ''None'' then Inr None else Inl ValueError),
       saved_as = (\<lambda>n. ''ramsey_chevron.h5'') \<rparr>"

definition example_self :: "int \<Rightarrow> ramsey_chevron" where
  "example_self nr = init 6 5 2 nr 1 1 1 1 1 (Listed [PyInt 0, PyInt 1]) 1 2 1 1 0 1 None 0"

text \<open>
  The same instance with a JPA pumped at 13 Hz, an environment that differs only in the
  name \<^verbatim>\<open>Base.save\<close> gives the file, and a two-by-two array of delays.
\<close>

definition example_jpa :: ramsey_chevron where
  "example_jpa =
     (example_self 3)\<lparr> jpa_params := Some [''pump_freq'' \<mapsto> 13, ''pump_pwr'' \<mapsto> 1,
       ''pump_port'' \<mapsto> 3, ''bias'' \<mapsto> 0, ''bias_port'' \<mapsto> 4] \<rparr>"

definition example_sdk_renamed :: "nat sdk" where
  "example_sdk_renamed = example_sdk\<lparr> saved_as := (\<lambda>n. ''other.h5'') \<rparr>"


text \<open>The instance after a run, and a file of it that has no \<^verbatim>\<open>drag\<close> attribute.\<close>

definition example_run :: ramsey_chevron where
  "example_run =
     (example_self 3)\<lparr> control_freq_arr := Some [4, 5, 6], t_arr := Some [0],
                        store_arr := Some \<lparr> shape = [0, 1, 1], data = [] \<rparr> \<rparr>"

definition example_file :: h5file where
  "example_file =
     \<lparr> attrs = [
         ''readout_freq'' \<mapsto> AFloat 6,
         ''control_freq_center'' \<mapsto> AFloat 5,
         ''control_freq_span'' \<mapsto> AFloat 2,
         ''control_freq_nr'' \<mapsto> AInt 3,
         ''readout_amp'' \<mapsto> AFloat 1,
         ''control_amp'' \<mapsto> AFloat 1,
         ''readout_duration'' \<mapsto> AFloat 1,
         ''control_duration'' \<mapsto> AFloat 1,
         ''sample_duration'' \<mapsto> AFloat 1,
         ''readout_port'' \<mapsto> AInt 1,
         ''control_port'' \<mapsto> AInt 2,
         ''sample_port'' \<mapsto> AInt 1,
         ''wait_delay'' \<mapsto> AFloat 1,
         ''readout_sample_delay'' \<mapsto> AFloat 0,
         ''num_averages'' \<mapsto> AInt 1,
         ''jpa_params'' \<mapsto> AStr ''None''],
       datasets = [
         ''delay_arr'' \<mapsto> FloatND \<lparr> shape = [2], data = [0, 1] \<rparr>,
         ''control_freq_arr'' \<mapsto> FloatND \<lparr> shape = [3], data = [4, 5, 6] \<rparr>,
         ''t_arr'' \<mapsto> FloatND \<lparr> shape = [1], data = [0] \<rparr>,
         ''store_arr'' \<mapsto> ComplexND \<lparr> shape = [0, 1, 1], data = [] \<rparr>] \<rparr>"

text \<open>
  Data to analyse: two control frequencies and two delays, four stores of 2001 samples
  on one port, the samples of the first two stores 1 and those of the last two -1, as
  many times as samples; and a fit that fails on a row of negative values.
\<close>

definition example_store :: "complex ndarray" where
  "example_store = \<lparr> shape = [4, 1, 2001], data = replicate 4002 1 @ replicate 4002 (- 1) \<rparr>"

definition example_analysis :: ramsey_chevron where
  "example_analysis =
     (example_self 2)\<lparr> control_freq_arr := Some [4, 6], t_arr := Some (replicate 2001 0),
                        store_arr := Some example_store \<rparr>"

definition example_fit :: fit where
  "example_fit x y =
     (if hd y < 0 then Inl ValueError
      else Inr ((Finite 0, Finite 1, Finite 1, Finite (- 3), Finite 0),
                (Finite 0, Finite 0, Finite 0, Finite (1 / 2), Finite 0)))"

section \<open>Properties of the constructor and of \<open>run\<close>\<close>

lemmas run_eval = run_def example_sdk_def example_self_def init_def frequencies_def linspace_def
   Let_def astype_float64_def run_experiment_def configure_hardware_def bind_step_def emit_def
   lift_def setup_measurement_def program_sequence_def adjust_period_def jpa_off_def save_def
   base_save_def file_of_def control_envelope_def DAC_CURRENT_def array1_def

lemma bind_step_err:
  "snd (bind_step m f) = Inl e \<Longrightarrow> snd m = Inl e \<or> (\<exists>a. snd (f a) = Inl e)"
proof (cases m)
  case (Pair tr r)
  assume h: "snd (bind_step m f) = Inl e"
  show ?thesis
  proof (cases r)
    case (Inl e')
    with Pair h show ?thesis by (simp add: bind_step_def)
  next
    case (Inr a)
    with Pair h have "snd (f a) = Inl e"
      by (simp add: bind_step_def split: prod.splits)
    then show ?thesis by blast
  qed
qed

lemma lift_getitem_err: "snd (lift (getitem d k)) = Inl e \<Longrightarrow> e = KeyError k"
  by (simp add: lift_def getitem_def split: option.splits)

lemma emit_err: "snd (emit cs) = Inl e \<Longrightarrow> False"
  by (simp add: emit_def)

lemma configure_hardware_err:
  "snd (configure_hardware self n) = Inl e \<Longrightarrow> \<exists>k. e = KeyError k"
  unfolding configure_hardware_def
  by (auto split: option.splits dest!: bind_step_err lift_getitem_err emit_err)

lemma adjust_period_err:
  "snd (adjust_period env self T) = Inl e \<Longrightarrow> (\<exists>k. e = KeyError k) \<or> e = ZeroDivisionError"
  unfolding adjust_period_def
  by (auto split: option.splits if_splits simp: Let_def lift_def
           dest!: bind_step_err lift_getitem_err[unfolded lift_def])

lemma jpa_off_err: "snd (jpa_off self) = Inl e \<Longrightarrow> \<exists>k. e = KeyError k"
  unfolding jpa_off_def
  by (auto split: option.splits dest!: bind_step_err lift_getitem_err emit_err)

lemma program_sequence_err:
  "snd (program_sequence self cp rp) = Inl e \<Longrightarrow> e = TypeError"
  by (auto simp: program_sequence_def split: list.splits prod.splits if_splits)

lemma run_experiment_err:
  "snd (run_experiment env self ia n) = Inl e \<Longrightarrow>
   (\<exists>k. e = KeyError k) \<or> e = ZeroDivisionError \<or> e = TypeError"
  unfolding run_experiment_def
  by (auto simp: setup_measurement_def split: prod.splits
           dest!: bind_step_err configure_hardware_err adjust_period_err emit_err
                  program_sequence_err)

lemma save_err: "save env fs self n = Inl e \<Longrightarrow> e = TypeError"
  by (auto simp: save_def base_save_def file_of_def split: sum.splits option.splits)

lemma linspace_two:
  assumes "2 \<le> num"
  shows "linspace a b num =
    Inr (map (\<lambda>i. a + real i * ((b - a) / real (nat num - 1))) [0..<nat num])"
proof -
  let ?n = "nat num"
  have n: "2 \<le> ?n" using assms by simp
  let ?f = "\<lambda>v. v * ((b - a) / real (?n - 1)) + a"
  have "(map ?f (map real [0..<?n]))[?n - 1 := b] =
        map (\<lambda>i. a + real i * ((b - a) / real (?n - 1))) [0..<?n]"
  proof (rule nth_equalityI)
    show "length ((map ?f (map real [0..<?n]))[?n - 1 := b]) =
          length (map (\<lambda>i. a + real i * ((b - a) / real (?n - 1))) [0..<?n])"
      by simp
  next
    fix i assume "i < length ((map ?f (map real [0..<?n]))[?n - 1 := b])"
    then have i: "i < ?n" by simp
    show "(map ?f (map real [0..<?n]))[?n - 1 := b] ! i =
          map (\<lambda>i. a + real i * ((b - a) / real (?n - 1))) [0..<?n] ! i"
    proof (cases "i = ?n - 1")
      case True
      have "real (?n - 1) \<noteq> 0" using n by simp
      then have "a + real (?n - 1) * ((b - a) / real (?n - 1)) = b" by simp
      with True i show ?thesis by simp
    next
      case False
      with i show ?thesis by (simp add: add.commute)
    qed
  qed
  with assms n show ?thesis
    by (simp add: linspace_def Let_def)
qed

lemma linspace_err: "linspace a b n = Inl e \<Longrightarrow> e = ValueError"
  by (simp add: linspace_def Let_def split: if_splits)

lemma run_experiment_err_pair:
  "run_experiment env self ia n = (tr, Inl e) \<Longrightarrow>
   (\<exists>k. e = KeyError k) \<or> e = ZeroDivisionError \<or> e = TypeError"
  using run_experiment_err [of env self ia n e] by simp

lemma jpa_off_err_pair:
  assumes "(jpa_off self :: ('p, unit) step) = (tr, Inl e)"
  shows "\<exists>k. e = KeyError k"
proof -
  have "snd (jpa_off self :: ('p, unit) step) = Inl e"
    using assms by simp
  then show ?thesis by (rule jpa_off_err)
qed

lemma run_outcome_err:
  "outcome (run env fs self ad p e) = Inl err \<Longrightarrow>
     snd (frequencies env self) = Inl err \<or> (\<exists>k. err = KeyError k) \<or> err = ZeroDivisionError
     \<or> err = TypeError"
  by (auto simp: run_def Let_def split: prod.splits sum.splits
           dest: run_experiment_err_pair jpa_off_err_pair save_err)




text \<open>
  Claim C8. When \<^verbatim>\<open>control_freq_center <= control_freq_span / 2\<close> or
  \<^verbatim>\<open>control_freq_span >= fs_dac / 2\<close>, \<^verbatim>\<open>run\<close> raises \<^verbatim>\<open>AssertionError\<close> and
  has done no more than open the interface, ask for the sampling rate and close the
  interface. When both inequalities hold the other way, neither of the two assertions
  on the frequencies is what \<^verbatim>\<open>run\<close> raises.
\<close>

theorem run_assertions:
  "(control_freq_center self \<le> control_freq_span self / 2
      \<or> get_fs env ''dac'' / 2 \<le> control_freq_span self \<longrightarrow>
      (\<exists>msg. outcome (run env fs self addr port clk) = Inl (AssertionError msg))
      \<and> (calls (run env fs self addr port clk) = [PulsedEnter addr port clk, PulsedExit]
         \<or> calls (run env fs self addr port clk) =
             [PulsedEnter addr port clk, GetFs ''dac'', PulsedExit]))
   \<and> (control_freq_span self / 2 < control_freq_center self
      \<and> control_freq_span self < get_fs env ''dac'' / 2 \<longrightarrow>
      outcome (run env fs self addr port clk) \<noteq>
        Inl (AssertionError ''self.control_freq_center > (self.control_freq_span / 2)'')
      \<and> outcome (run env fs self addr port clk) \<noteq>
        Inl (AssertionError ''self.control_freq_span < pls.get_fs(dac) / 2''))"
proof (intro conjI impI)
  assume "control_freq_center self \<le> control_freq_span self / 2
      \<or> get_fs env ''dac'' / 2 \<le> control_freq_span self"
  then have f: "frequencies env self = ([], Inl (AssertionError ''pls.hardware is not None''))
     \<or> frequencies env self =
         ([], Inl (AssertionError ''self.control_freq_center > (self.control_freq_span / 2)''))
     \<or> frequencies env self =
         ([GetFs ''dac''], Inl (AssertionError ''self.control_freq_span < pls.get_fs(dac) / 2''))"
    by (auto simp: frequencies_def)
  then show "\<exists>msg. outcome (run env fs self addr port clk) = Inl (AssertionError msg)"
    by (auto simp: run_def)
  from f show "calls (run env fs self addr port clk) = [PulsedEnter addr port clk, PulsedExit]
         \<or> calls (run env fs self addr port clk) =
             [PulsedEnter addr port clk, GetFs ''dac'', PulsedExit]"
    by (auto simp: run_def)
next
  assume h: "control_freq_span self / 2 < control_freq_center self
      \<and> control_freq_span self < get_fs env ''dac'' / 2"
  have f: "snd (frequencies env self) =
      Inl (AssertionError ''pls.hardware is not None'')
     \<or> snd (frequencies env self) = Inl ValueError \<or> (\<exists>v. snd (frequencies env self) = Inr v)"
    using h by (auto simp: frequencies_def Let_def split: sum.splits dest: linspace_err)
  show "outcome (run env fs self addr port clk) \<noteq>
        Inl (AssertionError ''self.control_freq_center > (self.control_freq_span / 2)'')"
    using f by (auto dest!: run_outcome_err)
  show "outcome (run env fs self addr port clk) \<noteq>
        Inl (AssertionError ''self.control_freq_span < pls.get_fs(dac) / 2'')"
    using f by (auto dest!: run_outcome_err)
qed

theorem run_assertions_witness:
  "outcome (run example_sdk Map.empty ((example_self 3)\<lparr> control_freq_span := 20 \<rparr>) ''addr'' None False)
     = Inl (AssertionError ''self.control_freq_center > (self.control_freq_span / 2)'')
   \<and> calls (run example_sdk Map.empty ((example_self 3)\<lparr> control_freq_span := 20 \<rparr>) ''addr'' None False)
     = [PulsedEnter ''addr'' None False, PulsedExit]
   \<and> outcome (run example_sdk Map.empty (example_self 3) ''addr'' None False) = Inr ''ramsey_chevron.h5''"
  using run_assertions [of "(example_self 3)\<lparr> control_freq_span := 20 \<rparr>" example_sdk Map.empty
      "''addr''" None False]
    run_assertions [of "example_self 3" example_sdk Map.empty "''addr''" None False]
  by (simp add: run_eval)

lemma linspace_one: "linspace a b 1 = Inr [a]"
  by (simp add: linspace_def)

text \<open>
  Claim C1, as amended. With the hardware object present and both assertions passing,
  \<^verbatim>\<open>run\<close> sets \<^verbatim>\<open>control_freq_arr\<close>, when at least two frequencies are asked for,
  to the \<^verbatim>\<open>control_freq_nr\<close> equally spaced frequencies that start at
  \<^verbatim>\<open>control_freq_center - control_freq_span / 2\<close>, the last of which is
  \<^verbatim>\<open>control_freq_center + control_freq_span / 2\<close>; and when one frequency is asked
  for, to that lower end alone. The array is set even when a later step of \<^verbatim>\<open>run\<close>
  raises.
\<close>

theorem run_control_freq_arr:
  assumes "hardware_present env"
    and "control_freq_span self / 2 < control_freq_center self"
    and "control_freq_span self < get_fs env ''dac'' / 2"
  shows "(2 \<le> control_freq_nr self \<longrightarrow>
      control_freq_arr (inst (run env fs self addr port clk)) =
        Some (map (\<lambda>i. control_freq_center self - control_freq_span self / 2
                      + real i * (control_freq_span self / real (nat (control_freq_nr self) - 1)))
              [0..<nat (control_freq_nr self)])
      \<and> control_freq_center self - control_freq_span self / 2
          + real (nat (control_freq_nr self) - 1)
            * (control_freq_span self / real (nat (control_freq_nr self) - 1))
        = control_freq_center self + control_freq_span self / 2)
    \<and> (control_freq_nr self = 1 \<longrightarrow>
      control_freq_arr (inst (run env fs self addr port clk)) =
        Some [control_freq_center self - control_freq_span self / 2])"
proof (intro conjI impI)
  let ?fs = "get_fs env ''dac''"
  let ?n = "nat (control_freq_nr self)"
  let ?ia = "map (\<lambda>i. (?fs / 4 - control_freq_span self / 2)
      + real i * ((?fs / 4 + control_freq_span self / 2 - (?fs / 4 - control_freq_span self / 2))
                  / real (?n - 1))) [0..<?n]"
  assume n: "2 \<le> control_freq_nr self"
  have "frequencies env self =
    ([GetFs ''dac'', GetFs ''dac''],
     Inr (?ia, control_freq_center self - ?fs / 4,
          map (\<lambda>f. control_freq_center self - ?fs / 4 + f) ?ia))"
    using assms linspace_two [OF n] by (simp add: frequencies_def Let_def)
  then have "control_freq_arr (inst (run env fs self addr port clk)) =
      Some (map (\<lambda>f. control_freq_center self - ?fs / 4 + f) ?ia)"
    by (simp add: run_def Let_def split: prod.splits sum.splits)
  then show "control_freq_arr (inst (run env fs self addr port clk)) =
      Some (map (\<lambda>i. control_freq_center self - control_freq_span self / 2
                      + real i * (control_freq_span self / real (?n - 1))) [0..<?n])"
    by (simp add: o_def)
  have "real (?n - 1) \<noteq> 0" using n by simp
  then show "control_freq_center self - control_freq_span self / 2
        + real (?n - 1) * (control_freq_span self / real (?n - 1))
      = control_freq_center self + control_freq_span self / 2"
    by simp
next
  let ?fs = "get_fs env ''dac''"
  assume n: "control_freq_nr self = 1"
  have "frequencies env self =
    ([GetFs ''dac'', GetFs ''dac''],
     Inr ([?fs / 4 - control_freq_span self / 2], control_freq_center self - ?fs / 4,
          map (\<lambda>f. control_freq_center self - ?fs / 4 + f) [?fs / 4 - control_freq_span self / 2]))"
    using assms n by (simp add: frequencies_def Let_def linspace_one)
  then have "control_freq_arr (inst (run env fs self addr port clk)) =
      Some (map (\<lambda>f. control_freq_center self - ?fs / 4 + f) [?fs / 4 - control_freq_span self / 2])"
    by (simp add: run_def Let_def split: prod.splits sum.splits)
  then show "control_freq_arr (inst (run env fs self addr port clk)) =
      Some [control_freq_center self - control_freq_span self / 2]"
    by simp
qed

theorem run_control_freq_arr_witness:
  "hardware_present example_sdk
   \<and> control_freq_span (example_self 3) / 2 < control_freq_center (example_self 3)
   \<and> control_freq_span (example_self 3) < get_fs example_sdk ''dac'' / 2
   \<and> 2 \<le> control_freq_nr (example_self 3)
   \<and> control_freq_arr (inst (run example_sdk Map.empty (example_self 3) ''addr'' None False)) =
       Some [4, 5, 6]
   \<and> control_freq_nr (example_self 1) = 1
   \<and> control_freq_arr (inst (run example_sdk Map.empty (example_self 1) ''addr'' None False)) =
       Some [4]"
proof -
  have h: "hardware_present example_sdk"
    "control_freq_span (example_self 3) / 2 < control_freq_center (example_self 3)"
    "control_freq_span (example_self 3) < get_fs example_sdk ''dac'' / 2"
    by (simp_all add: example_sdk_def example_self_def init_def)
  have h1: "control_freq_span (example_self 1) / 2 < control_freq_center (example_self 1)"
    "control_freq_span (example_self 1) < get_fs example_sdk ''dac'' / 2"
    by (simp_all add: example_sdk_def example_self_def init_def)
  have n: "[0..<3] = [0, 1, 2 :: nat]"
    by code_simp
  have v: "control_freq_center (example_self 3) = 5" "control_freq_span (example_self 3) = 2"
     "control_freq_nr (example_self 3) = 3"
     "control_freq_center (example_self 1) = 5" "control_freq_span (example_self 1) = 2"
     "control_freq_nr (example_self 1) = 1"
    by (simp_all add: example_self_def init_def)
  show ?thesis
    using h run_control_freq_arr [OF h, of Map.empty "''addr''" None False]
      run_control_freq_arr [OF h(1) h1, of Map.empty "''addr''" None False]
    by (simp add: n v)
qed

text \<open>
  With one frequency asked for the array is the lower end of the span alone: it neither
  reaches the upper end nor is centred.
\<close>

theorem run_control_freq_arr_counterexample:
  "hardware_present example_sdk
   \<and> control_freq_span (example_self 1) / 2 < control_freq_center (example_self 1)
   \<and> control_freq_span (example_self 1) < get_fs example_sdk ''dac'' / 2
   \<and> control_freq_arr (inst (run example_sdk Map.empty (example_self 1) ''addr'' None False)) =
       Some [4]
   \<and> last [4 :: real] \<noteq> control_freq_center (example_self 1) + control_freq_span (example_self 1) / 2"
  by (simp add: run_eval)

section \<open>The programmed sequence\<close>

lemma filter_schedule:
  "filter is_sequence_call (schedule gap self cp rp t ds) = schedule gap self cp rp t ds"
  by (induction ds arbitrary: t) (simp_all add: delay_block_def Let_def)

lemma filter_timeline_schedule:
  "filter is_timeline_call (schedule gap self cp rp t ds) = schedule gap self cp rp t ds"
  by (induction ds arbitrary: t) (simp_all add: delay_block_def Let_def)

lemma pulse_loop_schedule:
  "pulse_loop self cp rp T ds =
     (schedule (control_duration self) self cp rp T ds,
      T + sum_list (map (delay_period self) ds))"
proof (induction ds arbitrary: T)
  case Nil
  show ?case by simp
next
  case (Cons d ds)
  show ?case
    by (simp add: Cons Let_def delay_block_def delay_period_def add.assoc)
qed

lemma program_sequence_flat:
  assumes "shape (delay_arr self) = [n]"
  shows "program_sequence self cp rp =
     (schedule (control_duration self) self cp rp 0 (data (delay_arr self))
        @ [NextFrequency (sum_list (map (delay_period self) (data (delay_arr self))))
             (control_port self)],
      Inr (sum_list (map (delay_period self) (data (delay_arr self))) + wait_delay self))"
  using assms by (simp add: program_sequence_def pulse_loop_schedule)

lemma frequencies_returns:
  assumes "hardware_present env"
    and "control_freq_span self / 2 < control_freq_center self"
    and "control_freq_span self < get_fs env ''dac'' / 2"
    and "0 \<le> control_freq_nr self"
  shows "\<exists>ia nco fa. frequencies env self = ([GetFs ''dac'', GetFs ''dac''], Inr (ia, nco, fa))"
  using assms by (simp add: frequencies_def linspace_def Let_def)

lemma bind_step_filter:
  "filter P (fst (bind_step m f)) =
     filter P (fst m) @ (case snd m of Inl e \<Rightarrow> [] | Inr a \<Rightarrow> filter P (fst (f a)))"
  by (cases m; cases "snd m") (auto simp: bind_step_def split: prod.splits)

lemma configure_hardware_timeline:
  "filter is_timeline_call (fst (configure_hardware self nco)) = []"
  by (simp add: configure_hardware_def bind_step_filter emit_def lift_def
      split: option.splits sum.splits)

lemma adjust_period_timeline:
  "filter is_timeline_call (fst (adjust_period env self T)) = []"
  by (simp add: adjust_period_def bind_step_filter lift_def Let_def
      split: option.splits sum.splits)

lemma jpa_off_timeline: "filter is_timeline_call (fst (jpa_off self)) = []"
  by (simp add: jpa_off_def bind_step_filter emit_def lift_def split: option.splits sum.splits)

lemma configure_hardware_complete:
  assumes "jpa_complete self"
  shows "snd (configure_hardware self nco) = Inr ()"
  using assms
  by (auto simp: jpa_complete_def configure_hardware_def bind_step_def emit_def lift_def
      getitem_def split: option.splits)

lemma run_experiment_timeline:
  assumes "jpa_complete self" and "shape (delay_arr self) = [n]"
  shows "filter is_timeline_call (fst (run_experiment env self ia nco)) =
     schedule (control_duration self) self (template env) (long_drive env) 0
       (data (delay_arr self))
     @ [NextFrequency (sum_list (map (delay_period self) (data (delay_arr self))))
          (control_port self)]"
  by (simp add: run_experiment_def bind_step_filter configure_hardware_timeline
      configure_hardware_complete [OF assms(1)] setup_measurement_def
      program_sequence_flat [OF assms(2)] filter_timeline_schedule adjust_period_timeline
      emit_def split: sum.splits)

lemma run_timeline:
  fixes env :: "'p sdk"
  assumes "frequencies env self = ([GetFs ''dac'', GetFs ''dac''], Inr (ia, nco, fa))"
  shows "filter is_timeline_call (calls (run env fs self addr port clk)) =
     filter is_timeline_call
       (fst (run_experiment env (self\<lparr> control_freq_arr := Some fa \<rparr>) ia nco))"
proof -
  have j: "\<And>s tr r. (jpa_off s :: ('p, unit) step) = (tr, r) \<Longrightarrow> filter is_timeline_call tr = []"
  proof -
    fix s tr r assume "(jpa_off s :: ('p, unit) step) = (tr, r)"
    then have "tr = fst (jpa_off s :: ('p, unit) step)" by simp
    then show "filter is_timeline_call tr = []" by (simp add: jpa_off_timeline)
  qed
  show ?thesis
    using assms by (auto simp: run_def Let_def j split: prod.splits sum.splits)
qed

lemma run_experiment_no_jpa:
  assumes "jpa_params self = None" and "shape (delay_arr self) = [n]"
  shows "filter is_sequence_call (fst (run_experiment env self ia nco)) =
      sequence_calls (control_duration self) env self
    \<and> snd (run_experiment env self ia nco) = Inr ()"
  using assms(1)
  by (simp add: run_experiment_def configure_hardware_def setup_measurement_def
      program_sequence_flat [OF assms(2)] adjust_period_def bind_step_def emit_def lift_def
      filter_schedule sequence_calls_def Let_def)

lemma schedule_control_freq_arr:
  "schedule gap (self\<lparr> control_freq_arr := v \<rparr>) cp rp t ds = schedule gap self cp rp t ds"
  by (induction ds arbitrary: t) (simp_all add: delay_block_def delay_period_def)

lemma delay_period_control_freq_arr:
  "delay_period (self\<lparr> control_freq_arr := v \<rparr>) = delay_period self"
  by (rule ext) (simp add: delay_period_def)

lemma sequence_calls_control_freq_arr:
  "sequence_calls gap env (self\<lparr> control_freq_arr := v \<rparr>) = sequence_calls gap env self"
  by (simp add: sequence_calls_def schedule_control_freq_arr delay_period_control_freq_arr)

text \<open>
  Claim C2, as amended. In a run that passes the assertions, with a one-dimensional
  delay array and with JPA parameters or without, the calls on the time line are, for
  every delay in order, two control pulses whose start times differ by
  \<^verbatim>\<open>control_duration + delay\<close>, the readout pulse at the end of the second control
  pulse, that is \<^verbatim>\<open>control_duration\<close> after its start, and the store
  \<^verbatim>\<open>readout_sample_delay\<close> after the readout; then the frequency step at the sum of
  \<^verbatim>\<open>2 * control_duration + delay + readout_duration + wait_delay\<close> over the delays.
  Without JPA parameters the experiment is then started with that sum plus
  \<^verbatim>\<open>wait_delay\<close> as its period and \<^verbatim>\<open>control_freq_nr\<close> as its repeat count.
\<close>

theorem run_sequence:
  assumes "hardware_present env"
    and "control_freq_span self / 2 < control_freq_center self"
    and "control_freq_span self < get_fs env ''dac'' / 2"
    and "0 \<le> control_freq_nr self"
    and "jpa_complete self"
    and "shape (delay_arr self) = [n]"
  shows "filter is_timeline_call (calls (run env fs self addr port clk)) =
           schedule (control_duration self) self (template env) (long_drive env) 0
             (data (delay_arr self))
           @ [NextFrequency (sum_list (map (delay_period self) (data (delay_arr self))))
                (control_port self)]
       \<and> (jpa_params self = None \<longrightarrow>
            filter is_sequence_call (calls (run env fs self addr port clk)) =
              sequence_calls (control_duration self) env self)"
proof (intro conjI impI)
  obtain ia nco fa where f:
    "frequencies env self = ([GetFs ''dac'', GetFs ''dac''], Inr (ia, nco, fa))"
    using frequencies_returns [OF assms(1-4)] by blast
  let ?self1 = "self\<lparr> control_freq_arr := Some fa \<rparr>"
  have c: "jpa_complete ?self1" using assms(5) by (simp add: jpa_complete_def)
  have d: "shape (delay_arr ?self1) = [n]" using assms(6) by simp
  show "filter is_timeline_call (calls (run env fs self addr port clk)) =
           schedule (control_duration self) self (template env) (long_drive env) 0
             (data (delay_arr self))
           @ [NextFrequency (sum_list (map (delay_period self) (data (delay_arr self))))
                (control_port self)]"
    using run_timeline [OF f, of fs addr port clk] run_experiment_timeline [OF c d, of env ia nco]
    by (simp add: schedule_control_freq_arr delay_period_control_freq_arr)
  assume j0: "jpa_params self = None"
  then have j: "jpa_params ?self1 = None" by simp
  obtain tr2 where e: "run_experiment env ?self1 ia nco = (tr2, Inr ())"
    and tr2: "filter is_sequence_call tr2 = sequence_calls (control_duration self) env ?self1"
    using run_experiment_no_jpa [OF j d, of env ia nco]
    by (cases "run_experiment env ?self1 ia nco") simp
  have s: "sequence_calls (control_duration self) env ?self1 =
      sequence_calls (control_duration self) env self"
    by (rule sequence_calls_control_freq_arr)
  show "filter is_sequence_call (calls (run env fs self addr port clk)) =
           sequence_calls (control_duration self) env self"
    using f e tr2 s j0
    by (simp add: run_def Let_def jpa_off_def emit_def save_def base_save_def file_of_def)
qed

theorem run_sequence_witness:
  "filter is_timeline_call (calls (run example_sdk Map.empty example_jpa ''addr'' None False)) =
     [ResetPhase 0 2, OutputPulse 0 1, OutputPulse 1 1, ResetPhase 2 1, OutputPulse 2 0, Store 2,
      ResetPhase 4 2, OutputPulse 4 1, OutputPulse 6 1, ResetPhase 7 1, OutputPulse 7 0, Store 7,
      NextFrequency 9 2]
   \<and> jpa_params (example_self 3) = None
   \<and> filter is_sequence_call
        (calls (run example_sdk Map.empty (example_self 3) ''addr'' None False)) =
     [ResetPhase 0 2, OutputPulse 0 1, OutputPulse 1 1, ResetPhase 2 1, OutputPulse 2 0, Store 2,
      ResetPhase 4 2, OutputPulse 4 1, OutputPulse 6 1, ResetPhase 7 1, OutputPulse 7 0, Store 7,
      NextFrequency 9 2, Run 10 3 1 True]"
proof -
  have h: "hardware_present example_sdk"
    "control_freq_span (example_self 3) / 2 < control_freq_center (example_self 3)"
    "control_freq_span (example_self 3) < get_fs example_sdk ''dac'' / 2"
    "0 \<le> control_freq_nr (example_self 3)"
    "jpa_complete (example_self 3)"
    "shape (delay_arr (example_self 3)) = [2]"
    by (simp_all add: example_sdk_def example_self_def init_def jpa_complete_def
        astype_float64_def array1_def)
  have hj: "hardware_present example_sdk"
    "control_freq_span example_jpa / 2 < control_freq_center example_jpa"
    "control_freq_span example_jpa < get_fs example_sdk ''dac'' / 2"
    "0 \<le> control_freq_nr example_jpa"
    "jpa_complete example_jpa"
    "shape (delay_arr example_jpa) = [2]"
    by (simp_all add: example_sdk_def example_jpa_def example_self_def init_def jpa_complete_def
        astype_float64_def array1_def)
  have j: "jpa_params (example_self 3) = None"
    by (simp add: example_self_def init_def)
  have a: "sequence_calls (control_duration (example_self 3)) example_sdk (example_self 3) =
     [ResetPhase 0 2, OutputPulse 0 1, OutputPulse 1 1, ResetPhase 2 1, OutputPulse 2 0, Store 2,
      ResetPhase 4 2, OutputPulse 4 1, OutputPulse 6 1, ResetPhase 7 1, OutputPulse 7 0, Store 7,
      NextFrequency 9 2, Run 10 3 1 True]"
    by (simp add: sequence_calls_def delay_block_def delay_period_def Let_def example_sdk_def
        example_self_def init_def astype_float64_def array1_def)
  have b: "schedule (control_duration example_jpa) example_jpa (template example_sdk)
        (long_drive example_sdk) 0 (data (delay_arr example_jpa))
      @ [NextFrequency (sum_list (map (delay_period example_jpa) (data (delay_arr example_jpa))))
           (control_port example_jpa)] =
     [ResetPhase 0 2, OutputPulse 0 1, OutputPulse 1 1, ResetPhase 2 1, OutputPulse 2 0, Store 2,
      ResetPhase 4 2, OutputPulse 4 1, OutputPulse 6 1, ResetPhase 7 1, OutputPulse 7 0, Store 7,
      NextFrequency 9 2]"
    by (simp add: delay_block_def delay_period_def Let_def example_sdk_def example_jpa_def
        example_self_def init_def astype_float64_def array1_def)
  show ?thesis
    using run_sequence [OF h, of Map.empty "''addr''" None False]
      run_sequence [OF hj, of Map.empty "''addr''" None False] a b j
    by simp
qed

text \<open>
  The readout is not \<^verbatim>\<open>control_duration\<close> after the end of the second control
  pulse: with a control pulse of 1 s that starts at 1 s the readout is at 2 s, not at 3 s.
\<close>

theorem run_sequence_counterexample:
  "filter is_sequence_call (calls (run example_sdk Map.empty (example_self 3) ''addr'' None False))
     \<noteq> sequence_calls (2 * control_duration (example_self 3)) example_sdk (example_self 3)
   \<and> filter is_sequence_call
         (calls (run example_sdk Map.empty (example_self 3) ''addr'' None False)) ! 4
       = OutputPulse 2 (long_drive example_sdk)
   \<and> sequence_calls (2 * control_duration (example_self 3)) example_sdk (example_self 3) ! 4
       = OutputPulse 3 (long_drive example_sdk)"
  by (simp add: run_eval sequence_calls_def delay_block_def delay_period_def)

section \<open>The order of the steps of \<open>run\<close>\<close>

lemma bind_step_Inr_D:
  assumes "bind_step m f = (tr, Inr b)"
  shows "\<exists>tr1 a tr2. m = (tr1, Inr a) \<and> f a = (tr2, Inr b) \<and> tr = tr1 @ tr2"
proof (cases m)
  case (Pair tr1 r)
  show ?thesis
  proof (cases r)
    case (Inl e)
    with Pair assms show ?thesis by (simp add: bind_step_def)
  next
    case (Inr a)
    with Pair assms show ?thesis
      by (cases "f a") (simp add: bind_step_def)
  qed
qed

lemma frequencies_Inr_D:
  assumes "frequencies env self = (tr, Inr (ia, nco, fa))"
  shows "tr = [GetFs ''dac'', GetFs ''dac'']
    \<and> nco = control_freq_center self - get_fs env ''dac'' / 4
    \<and> linspace (get_fs env ''dac'' / 4 - control_freq_span self / 2)
         (get_fs env ''dac'' / 4 + control_freq_span self / 2) (control_freq_nr self) = Inr ia
    \<and> fa = map (\<lambda>f. control_freq_center self - get_fs env ''dac'' / 4 + f) ia"
  using assms by (auto simp: frequencies_def Let_def split: if_splits sum.splits)

lemma configure_hardware_Inr_D:
  assumes "configure_hardware self nco = (tr, Inr u)"
  shows "tr = hardware_configuration self nco @ jpa_on_calls self"
proof (cases "jpa_params self")
  case None
  with assms show ?thesis
    by (simp add: configure_hardware_def hardware_configuration_def jpa_on_calls_def
        bind_step_def emit_def DAC_CURRENT_def)
next
  case (Some d)
  with assms show ?thesis
    by (auto simp: configure_hardware_def hardware_configuration_def jpa_on_calls_def
        bind_step_def emit_def lift_def getitem_def DAC_CURRENT_def
        split: option.splits prod.splits sum.splits)
qed

lemma setup_measurement_calls:
  "setup_measurement env self ia =
     (pulse_configuration env self ia, Inr (long_drive env, template env))"
  by (simp add: setup_measurement_def pulse_configuration_def)

lemma program_sequence_Inr_D:
  assumes "program_sequence self cp rp = (tr, Inr T)"
  shows "tr = schedule (control_duration self) self cp rp 0 (delays self)
              @ [NextFrequency (sum_list (map (delay_period self) (delays self)))
                   (control_port self)]
    \<and> T = sum_list (map (delay_period self) (delays self)) + wait_delay self"
  using assms
  by (auto simp: program_sequence_def delays_def pulse_loop_schedule
      split: list.splits if_splits)

lemma adjust_period_Inr_D:
  assumes "adjust_period env self T = (tr, Inr T')"
  shows "tr = clock_calls self \<and> (jpa_params self = None \<longrightarrow> T' = T)"
  using assms
  by (auto simp: adjust_period_def clock_calls_def bind_step_def lift_def getitem_def Let_def
      split: option.splits if_splits)

lemma jpa_off_Inr_D:
  assumes "jpa_off self = (tr, Inr u)"
  shows "tr = jpa_off_calls self"
  using assms
  by (auto simp: jpa_off_def jpa_off_calls_def bind_step_def emit_def lift_def getitem_def
      split: option.splits)

lemma run_experiment_Inr_D:
  assumes "run_experiment env self ia nco = (tr, Inr u)"
  shows "\<exists>T. tr = hardware_configuration self nco @ jpa_on_calls self
             @ pulse_configuration env self ia
             @ schedule (control_duration self) self (template env) (long_drive env) 0
                 (delays self)
             @ [NextFrequency (sum_list (map (delay_period self) (delays self)))
                  (control_port self)]
             @ clock_calls self
             @ [Run T (control_freq_nr self) (num_averages self) True]
    \<and> (jpa_params self = None \<longrightarrow>
         T = sum_list (map (delay_period self) (delays self)) + wait_delay self)"
proof -
  from bind_step_Inr_D [OF assms [unfolded run_experiment_def]]
  obtain tr1 u1 r1 where a: "configure_hardware self nco = (tr1, Inr u1)"
    and b: "bind_step (setup_measurement env self ia) (\<lambda>(readout_pulse, control_pulse).
       bind_step (program_sequence self control_pulse readout_pulse) (\<lambda>T.
       bind_step (adjust_period env self T) (\<lambda>T.
       emit [Run T (control_freq_nr self) (num_averages self) True]))) = (r1, Inr u)"
    and t: "tr = tr1 @ r1"
    by blast
  from bind_step_Inr_D [OF b [unfolded setup_measurement_calls]]
  obtain r2 where c: "bind_step (program_sequence self (template env) (long_drive env)) (\<lambda>T.
       bind_step (adjust_period env self T) (\<lambda>T.
       emit [Run T (control_freq_nr self) (num_averages self) True])) = (r2, Inr u)"
    and t1: "r1 = pulse_configuration env self ia @ r2"
    by auto
  from bind_step_Inr_D [OF c]
  obtain tr3 T0 r3 where d: "program_sequence self (template env) (long_drive env) = (tr3, Inr T0)"
    and e: "bind_step (adjust_period env self T0) (\<lambda>T.
       emit [Run T (control_freq_nr self) (num_averages self) True]) = (r3, Inr u)"
    and t2: "r2 = tr3 @ r3"
    by blast
  from bind_step_Inr_D [OF e]
  obtain tr4 T r4 where f: "adjust_period env self T0 = (tr4, Inr T)"
    and g: "emit [Run T (control_freq_nr self) (num_averages self) True] = (r4, Inr u)"
    and t3: "r3 = tr4 @ r4"
    by blast
  from g have r4: "r4 = [Run T (control_freq_nr self) (num_averages self) True]"
    by (simp add: emit_def)
  from configure_hardware_Inr_D [OF a] program_sequence_Inr_D [OF d] adjust_period_Inr_D [OF f]
    t t1 t2 t3 r4
  show ?thesis by auto
qed

lemma run_Inr_D:
  fixes env :: "'p sdk"
  assumes "outcome (run env fs self addr port clk) = Inr filename"
  shows "\<exists>tr1 ia nco fa tr2 tr3 fs'.
    frequencies env self = (tr1, Inr (ia, nco, fa)) \<and>
    run_experiment env (self\<lparr> control_freq_arr := Some fa \<rparr>) ia nco = (tr2, Inr ()) \<and>
    (jpa_off (self\<lparr> control_freq_arr := Some fa,
                       t_arr := Some (fst (get_store_data env)),
                       store_arr := Some (snd (get_store_data env)) \<rparr>) :: ('p, unit) step)
      = (tr3, Inr ()) \<and>
    save env fs (self\<lparr> control_freq_arr := Some fa,
                       t_arr := Some (fst (get_store_data env)),
                       store_arr := Some (snd (get_store_data env)) \<rparr>) None = Inr (fs', filename)"
  using assms by (auto simp: run_def Let_def split: prod.splits sum.splits)

lemma schedule_arrays:
  "schedule gap (self\<lparr> control_freq_arr := x \<rparr>) cp rp t ds = schedule gap self cp rp t ds"
  "schedule gap (self\<lparr> t_arr := y \<rparr>) cp rp t ds = schedule gap self cp rp t ds"
  "schedule gap (self\<lparr> store_arr := z \<rparr>) cp rp t ds = schedule gap self cp rp t ds"
  by (induction ds arbitrary: t; simp add: delay_block_def delay_period_def)+

lemma run_trace_control_freq_arr:
  "hardware_configuration (self\<lparr> control_freq_arr := x \<rparr>) nco = hardware_configuration self nco"
  "jpa_on_calls (self\<lparr> control_freq_arr := x \<rparr>) = jpa_on_calls self"
  "pulse_configuration env (self\<lparr> control_freq_arr := x \<rparr>) ia = pulse_configuration env self ia"
  "delays (self\<lparr> control_freq_arr := x \<rparr>) = delays self"
  "clock_calls (self\<lparr> control_freq_arr := x \<rparr>) = clock_calls self"
  by (simp_all add: hardware_configuration_def jpa_on_calls_def pulse_configuration_def
      control_envelope_def delays_def clock_calls_def split: list.splits)

lemma jpa_off_calls_arrays:
  "jpa_off_calls (self\<lparr> control_freq_arr := x, t_arr := y, store_arr := z \<rparr>) = jpa_off_calls self"
  by (simp add: jpa_off_calls_def)

text \<open>
  Claim C5. In every invocation of \<^verbatim>\<open>run\<close> that returns, the calls are, in this
  order: the interface is opened, the hardware, the mixers and the pulses are
  configured from the constructor parameters and the sequence is programmed, then
  \<^verbatim>\<open>pls.run\<close>, then \<^verbatim>\<open>pls.get_store_data\<close>, whose two results are \<^verbatim>\<open>t_arr\<close>
  and \<^verbatim>\<open>store_arr\<close> of the instance, then the calls that switch a JPA off, then the
  interface is closed and \<^verbatim>\<open>save\<close> is called on that instance; what \<^verbatim>\<open>run\<close>
  returns is the file name that \<^verbatim>\<open>save\<close> returns.
\<close>

theorem run_order:
  fixes env :: "'p sdk"
  assumes "outcome (run env fs self addr port clk) = Inr filename"
  shows "\<exists>control_if_arr T.
      linspace (get_fs env ''dac'' / 4 - control_freq_span self / 2)
        (get_fs env ''dac'' / 4 + control_freq_span self / 2) (control_freq_nr self)
        = Inr control_if_arr
      \<and> calls (run env fs self addr port clk) = run_trace env self addr port clk control_if_arr T
      \<and> (jpa_params self = None \<longrightarrow>
           T = sum_list (map (delay_period self) (delays self)) + wait_delay self)
      \<and> t_arr (inst (run env fs self addr port clk)) = Some (fst (get_store_data env))
      \<and> store_arr (inst (run env fs self addr port clk)) = Some (snd (get_store_data env))
      \<and> save env fs (inst (run env fs self addr port clk)) None =
          Inr (files (run env fs self addr port clk), filename)"
proof -
  let ?self1 = "self\<lparr> control_freq_arr := Some fa \<rparr>"
  from run_Inr_D [OF assms] obtain tr1 ia nco fa tr2 tr3 fs' where
    f: "frequencies env self = (tr1, Inr (ia, nco, fa))" and
    e: "run_experiment env (self\<lparr> control_freq_arr := Some fa \<rparr>) ia nco = (tr2, Inr ())" and
    j: "(jpa_off (self\<lparr> control_freq_arr := Some fa,
                       t_arr := Some (fst (get_store_data env)),
                       store_arr := Some (snd (get_store_data env)) \<rparr>) :: ('p, unit) step)
         = (tr3, Inr ())" and
    s: "save env fs (self\<lparr> control_freq_arr := Some fa,
                       t_arr := Some (fst (get_store_data env)),
                       store_arr := Some (snd (get_store_data env)) \<rparr>) None = Inr (fs', filename)"
    by blast
  note fd = frequencies_Inr_D [OF f]
  from run_experiment_Inr_D [OF e] obtain T where
    tr2: "tr2 = hardware_configuration self nco @ jpa_on_calls self
             @ pulse_configuration env self ia
             @ schedule (control_duration self) self (template env) (long_drive env) 0
                 (delays self)
             @ [NextFrequency (sum_list (map (delay_period self) (delays self)))
                  (control_port self)]
             @ clock_calls self
             @ [Run T (control_freq_nr self) (num_averages self) True]"
    and T: "jpa_params self = None \<longrightarrow>
         T = sum_list (map (delay_period self) (delays self)) + wait_delay self"
    by (auto simp: run_trace_control_freq_arr schedule_arrays delay_period_control_freq_arr)
  have tr3: "tr3 = jpa_off_calls self"
    using jpa_off_Inr_D [OF j] by (simp add: jpa_off_calls_arrays)
  have r: "run env fs self addr port clk =
     \<lparr> calls = run_trace env self addr port clk ia T,
       inst = self\<lparr> control_freq_arr := Some fa,
                       t_arr := Some (fst (get_store_data env)),
                       store_arr := Some (snd (get_store_data env)) \<rparr>,
       files = fs', outcome = Inr filename \<rparr>"
    using f e j s fd tr2 tr3 by (simp add: run_def Let_def run_trace_def)
  show ?thesis
    apply (rule exI [of _ ia])
    apply (rule exI [of _ T])
    using r s fd T apply simp
    done
qed

theorem run_order_witness:
  "outcome (run example_sdk Map.empty example_jpa ''addr'' None False) =
     Inr ''ramsey_chevron.h5''
   \<and> (\<exists>control_if_arr T.
      linspace (get_fs example_sdk ''dac'' / 4 - control_freq_span example_jpa / 2)
        (get_fs example_sdk ''dac'' / 4 + control_freq_span example_jpa / 2)
        (control_freq_nr example_jpa) = Inr control_if_arr
      \<and> calls (run example_sdk Map.empty example_jpa ''addr'' None False) =
          run_trace example_sdk example_jpa ''addr'' None False control_if_arr T
      \<and> t_arr (inst (run example_sdk Map.empty example_jpa ''addr'' None False)) =
          Some (fst (get_store_data example_sdk))
      \<and> store_arr (inst (run example_sdk Map.empty example_jpa ''addr'' None False)) =
          Some (snd (get_store_data example_sdk))
      \<and> save example_sdk Map.empty
            (inst (run example_sdk Map.empty example_jpa ''addr'' None False)) None =
          Inr (files (run example_sdk Map.empty example_jpa ''addr'' None False),
               ''ramsey_chevron.h5''))
   \<and> calls (run example_sdk Map.empty (example_self 3) ''addr'' None False) =
       [PulsedEnter ''addr'' None False, GetFs ''dac'', GetFs ''dac'',
        SetAdcAttenuation 1 0, SetDacCurrent 1 32000, SetDacCurrent 2 32000,
        SetInvSinc 1 0, SetInvSinc 2 0, ConfigureMixer 6 (Some 1) 1 False,
        ConfigureMixer (5 / 2) None 2 True, SetupFreqLut 1 0 [0] [0] [0],
        SetupFreqLut 2 0 [3 / 2, 5 / 2, 7 / 2] [0, 0, 0] [- (pi / 2), - (pi / 2), - (pi / 2)],
        SetupScaleLut 1 0 1, SetupScaleLut 2 0 1, SetupLongDrive 1 0 1 1 1 0 0, GetFs ''dac'',
        SetupTemplate 2 0 [] (Some []) True, SetStorePorts 1, SetStoreDuration 1,
        ResetPhase 0 2, OutputPulse 0 1, OutputPulse 1 1, ResetPhase 2 1, OutputPulse 2 0,
        Store 2, ResetPhase 4 2, OutputPulse 4 1, OutputPulse 6 1, ResetPhase 7 1,
        OutputPulse 7 0, Store 7, NextFrequency 9 2, Run 10 3 1 True, GetStoreData,
        PulsedExit, BaseSave None]"
proof -
  have o: "outcome (run example_sdk Map.empty example_jpa ''addr'' None False) =
     Inr ''ramsey_chevron.h5''"
    by (simp add: run_eval example_jpa_def getitem_def py_round_def)
  have o3: "outcome (run example_sdk Map.empty (example_self 3) ''addr'' None False) =
     Inr ''ramsey_chevron.h5''"
    by (simp add: run_eval)
  have n: "[0..<3] = [0, 1, 2 :: nat]" by code_simp
  have l: "linspace (3 / 2) (7 / 2) 3 = Inr [3 / 2, 5 / 2, 7 / 2]"
    by (simp add: linspace_def Let_def n)
  have e: "control_envelope example_sdk (example_self 3) = []"
    by (simp add: control_envelope_def example_sdk_def Let_def)
  from run_order [OF o3] obtain ia T where
    a: "linspace (get_fs example_sdk ''dac'' / 4 - control_freq_span (example_self 3) / 2)
        (get_fs example_sdk ''dac'' / 4 + control_freq_span (example_self 3) / 2)
        (control_freq_nr (example_self 3)) = Inr ia"
    and b: "calls (run example_sdk Map.empty (example_self 3) ''addr'' None False) =
          run_trace example_sdk (example_self 3) ''addr'' None False ia T"
    and c: "jpa_params (example_self 3) = None \<longrightarrow>
           T = sum_list (map (delay_period (example_self 3)) (delays (example_self 3)))
               + wait_delay (example_self 3)"
    by (elim exE conjE)
  from a l have ia: "ia = [3 / 2, 5 / 2, 7 / 2]"
    by (simp add: example_sdk_def example_self_def init_def)
  from c have T: "T = 10"
    by (simp add: example_self_def init_def delays_def delay_period_def astype_float64_def
        array1_def)
  have full: "calls (run example_sdk Map.empty (example_self 3) ''addr'' None False) =
       [PulsedEnter ''addr'' None False, GetFs ''dac'', GetFs ''dac'',
        SetAdcAttenuation 1 0, SetDacCurrent 1 32000, SetDacCurrent 2 32000,
        SetInvSinc 1 0, SetInvSinc 2 0, ConfigureMixer 6 (Some 1) 1 False,
        ConfigureMixer (5 / 2) None 2 True, SetupFreqLut 1 0 [0] [0] [0],
        SetupFreqLut 2 0 [3 / 2, 5 / 2, 7 / 2] [0, 0, 0] [- (pi / 2), - (pi / 2), - (pi / 2)],
        SetupScaleLut 1 0 1, SetupScaleLut 2 0 1, SetupLongDrive 1 0 1 1 1 0 0, GetFs ''dac'',
        SetupTemplate 2 0 [] (Some []) True, SetStorePorts 1, SetStoreDuration 1,
        ResetPhase 0 2, OutputPulse 0 1, OutputPulse 1 1, ResetPhase 2 1, OutputPulse 2 0,
        Store 2, ResetPhase 4 2, OutputPulse 4 1, OutputPulse 6 1, ResetPhase 7 1,
        OutputPulse 7 0, Store 7, NextFrequency 9 2, Run 10 3 1 True, GetStoreData,
        PulsedExit, BaseSave None]"
    unfolding b ia T
    by (simp add: run_trace_def hardware_configuration_def jpa_on_calls_def
        pulse_configuration_def control_envelope_def clock_calls_def jpa_off_calls_def
        delays_def delay_block_def delay_period_def Let_def example_sdk_def example_self_def
        init_def astype_float64_def array1_def)
  from run_order [OF o] obtain ia' T' where
    "linspace (get_fs example_sdk ''dac'' / 4 - control_freq_span example_jpa / 2)
        (get_fs example_sdk ''dac'' / 4 + control_freq_span example_jpa / 2)
        (control_freq_nr example_jpa) = Inr ia'"
    "calls (run example_sdk Map.empty example_jpa ''addr'' None False) =
          run_trace example_sdk example_jpa ''addr'' None False ia' T'"
    "t_arr (inst (run example_sdk Map.empty example_jpa ''addr'' None False)) =
          Some (fst (get_store_data example_sdk))"
    "store_arr (inst (run example_sdk Map.empty example_jpa ''addr'' None False)) =
          Some (snd (get_store_data example_sdk))"
    "save example_sdk Map.empty
            (inst (run example_sdk Map.empty example_jpa ''addr'' None False)) None =
          Inr (files (run example_sdk Map.empty example_jpa ''addr'' None False),
               ''ramsey_chevron.h5'')"
    by (elim exE conjE)
  then have ex: "\<exists>control_if_arr T.
      linspace (get_fs example_sdk ''dac'' / 4 - control_freq_span example_jpa / 2)
        (get_fs example_sdk ''dac'' / 4 + control_freq_span example_jpa / 2)
        (control_freq_nr example_jpa) = Inr control_if_arr
      \<and> calls (run example_sdk Map.empty example_jpa ''addr'' None False) =
          run_trace example_sdk example_jpa ''addr'' None False control_if_arr T
      \<and> t_arr (inst (run example_sdk Map.empty example_jpa ''addr'' None False)) =
          Some (fst (get_store_data example_sdk))
      \<and> store_arr (inst (run example_sdk Map.empty example_jpa ''addr'' None False)) =
          Some (snd (get_store_data example_sdk))
      \<and> save example_sdk Map.empty
            (inst (run example_sdk Map.empty example_jpa ''addr'' None False)) None =
          Inr (files (run example_sdk Map.empty example_jpa ''addr'' None False),
               ''ramsey_chevron.h5'')"
    by (intro exI conjI)
  show ?thesis
    by (intro conjI) (rule o, rule ex, rule full)
qed

section \<open>\<open>run\<close> as a function of the parameters and of the answers of the interface\<close>

lemma pulse_loop_arrays:
  "pulse_loop (self\<lparr> control_freq_arr := x \<rparr>) cp rp T ds = pulse_loop self cp rp T ds"
  "pulse_loop (self\<lparr> t_arr := y \<rparr>) cp rp T ds = pulse_loop self cp rp T ds"
  "pulse_loop (self\<lparr> store_arr := z \<rparr>) cp rp T ds = pulse_loop self cp rp T ds"
  by (induction ds arbitrary: T; simp add: Let_def)+

lemma frequencies_arrays:
  "frequencies env (self\<lparr> control_freq_arr := x \<rparr>) = frequencies env self"
  "frequencies env (self\<lparr> t_arr := y \<rparr>) = frequencies env self"
  "frequencies env (self\<lparr> store_arr := z \<rparr>) = frequencies env self"
  by (simp_all add: frequencies_def Let_def split: sum.splits)

lemma configure_hardware_arrays:
  "configure_hardware (self\<lparr> control_freq_arr := x \<rparr>) nco = configure_hardware self nco"
  "configure_hardware (self\<lparr> t_arr := y \<rparr>) nco = configure_hardware self nco"
  "configure_hardware (self\<lparr> store_arr := z \<rparr>) nco = configure_hardware self nco"
  by (simp_all add: configure_hardware_def split: option.splits)

lemma setup_measurement_arrays:
  "setup_measurement env (self\<lparr> control_freq_arr := x \<rparr>) ia = setup_measurement env self ia"
  "setup_measurement env (self\<lparr> t_arr := y \<rparr>) ia = setup_measurement env self ia"
  "setup_measurement env (self\<lparr> store_arr := z \<rparr>) ia = setup_measurement env self ia"
  by (simp_all add: setup_measurement_def control_envelope_def)

lemma program_sequence_arrays:
  "program_sequence (self\<lparr> control_freq_arr := x \<rparr>) cp rp = program_sequence self cp rp"
  "program_sequence (self\<lparr> t_arr := y \<rparr>) cp rp = program_sequence self cp rp"
  "program_sequence (self\<lparr> store_arr := z \<rparr>) cp rp = program_sequence self cp rp"
  by (simp_all add: program_sequence_def pulse_loop_arrays split: list.splits)

lemma adjust_period_arrays:
  "adjust_period env (self\<lparr> control_freq_arr := x \<rparr>) T = adjust_period env self T"
  "adjust_period env (self\<lparr> t_arr := y \<rparr>) T = adjust_period env self T"
  "adjust_period env (self\<lparr> store_arr := z \<rparr>) T = adjust_period env self T"
  by (simp_all add: adjust_period_def Let_def split: option.splits)

lemma run_experiment_arrays:
  "run_experiment env (self\<lparr> control_freq_arr := x \<rparr>) ia nco = run_experiment env self ia nco"
  "run_experiment env (self\<lparr> t_arr := y \<rparr>) ia nco = run_experiment env self ia nco"
  "run_experiment env (self\<lparr> store_arr := z \<rparr>) ia nco = run_experiment env self ia nco"
  by (simp_all add: run_experiment_def configure_hardware_arrays setup_measurement_arrays
      program_sequence_arrays adjust_period_arrays)

lemma jpa_off_arrays:
  "jpa_off (self\<lparr> control_freq_arr := x \<rparr>) = jpa_off self"
  "jpa_off (self\<lparr> t_arr := y \<rparr>) = jpa_off self"
  "jpa_off (self\<lparr> store_arr := z \<rparr>) = jpa_off self"
  by (simp_all add: jpa_off_def split: option.splits)

lemma save_name:
  "save env fs1 self n = Inl e \<Longrightarrow> save env fs2 self n = Inl e"
  "save env fs1 self n = Inr (fs1', name) \<Longrightarrow> \<exists>fs2'. save env fs2 self n = Inr (fs2', name)"
  by (auto simp: save_def base_save_def split: sum.splits)

lemma run_parameters:
  fixes env :: "'p sdk"
  shows "calls (run env fs1 self addr port clk) = calls (run env fs2 (parameters self) addr port clk)
    \<and> outcome (run env fs1 self addr port clk) = outcome (run env fs2 (parameters self) addr port clk)
    \<and> (\<forall>name. outcome (run env fs1 self addr port clk) = Inr name \<longrightarrow>
         inst (run env fs1 self addr port clk) = inst (run env fs2 (parameters self) addr port clk))"
proof (cases "frequencies env self")
  case (Pair tr1 r1)
  show ?thesis
  proof (cases r1)
    case (Inl e)
    with Pair show ?thesis
      by (simp add: run_def parameters_def frequencies_arrays)
  next
    case (Inr v)
    then obtain ia nco fa where v: "r1 = Inr (ia, nco, fa)" by (cases v) auto
    show ?thesis
    proof (cases "run_experiment env self ia nco")
      case p2: (Pair tr2 r2)
      show ?thesis
      proof (cases r2)
        case (Inl e)
        with Pair v p2 show ?thesis
          by (simp add: run_def parameters_def frequencies_arrays run_experiment_arrays)
      next
        case r2: (Inr u)
        show ?thesis
        proof (cases "jpa_off self :: ('p, unit) step")
          case p3: (Pair tr3 r3)
          show ?thesis
          proof (cases r3)
            case (Inl e)
            with Pair v p2 r2 p3 show ?thesis
              by (simp add: run_def parameters_def frequencies_arrays run_experiment_arrays
                  jpa_off_arrays)
          next
            case r3: (Inr u')
            let ?s = "self\<lparr> control_freq_arr := Some fa,
                       t_arr := Some (fst (get_store_data env)),
                       store_arr := Some (snd (get_store_data env)) \<rparr>"
            show ?thesis
            proof (cases "save env fs1 ?s None")
              case (Inl e)
              from save_name(1) [OF Inl, of fs2] Inl Pair v p2 r2 p3 r3 show ?thesis
                by (simp add: run_def parameters_def frequencies_arrays run_experiment_arrays
                  jpa_off_arrays)
            next
              case (Inr w)
              obtain fs1' name where w: "w = (fs1', name)" by (cases w)
              from save_name(2) [of env fs1 ?s None fs1' name fs2] Inr w
              obtain fs2' where "save env fs2 ?s None = Inr (fs2', name)" by auto
              with Inr w Pair v p2 r2 p3 r3 show ?thesis
                by (simp add: run_def parameters_def frequencies_arrays run_experiment_arrays
                  jpa_off_arrays)
            qed
          qed
        qed
      qed
    qed
  qed
qed

lemma frequencies_env:
  assumes "same_responses env1 env2"
  shows "frequencies env1 self = frequencies env2 self"
  using assms by (simp add: same_responses_def frequencies_def)

lemma setup_measurement_env:
  assumes "same_responses env1 env2"
  shows "setup_measurement env1 self ia = setup_measurement env2 self ia"
  using assms
  by (simp add: same_responses_def setup_measurement_def control_envelope_def)

lemma adjust_period_env:
  assumes "same_responses env1 env2"
  shows "adjust_period env1 self T = adjust_period env2 self T"
proof -
  have f: "get_clk_f env1 = get_clk_f env2" "get_clk_T env1 = get_clk_T env2"
    using assms by (simp_all add: same_responses_def)
  show ?thesis
    unfolding adjust_period_def f by (rule refl)
qed

lemma run_experiment_env:
  assumes "same_responses env1 env2"
  shows "run_experiment env1 self ia nco = run_experiment env2 self ia nco"
  by (simp add: run_experiment_def setup_measurement_env [OF assms] adjust_period_env [OF assms])

lemma save_returns:
  assumes "control_freq_arr self = Some f" and "t_arr self = Some t" and "store_arr self = Some s"
  shows "\<exists>fs'. save env fs self n = Inr (fs', saved_as env n)"
  using assms by (simp add: save_def base_save_def file_of_def)

lemma run_env:
  fixes env1 :: "'p sdk"
  assumes "same_responses env1 env2"
  shows "calls (run env1 fs self addr port clk) = calls (run env2 fs self addr port clk)
    \<and> inst (run env1 fs self addr port clk) = inst (run env2 fs self addr port clk)
    \<and> (\<forall>name. outcome (run env1 fs self addr port clk) = Inr name \<longrightarrow>
         name = saved_as env1 None
         \<and> outcome (run env2 fs self addr port clk) = Inr (saved_as env2 None))
    \<and> (\<forall>e. outcome (run env1 fs self addr port clk) = Inl e \<longrightarrow>
         outcome (run env2 fs self addr port clk) = Inl e)"
proof -
  have g: "get_store_data env1 = get_store_data env2"
    using assms by (simp add: same_responses_def)
  note q = frequencies_env [OF assms] run_experiment_env [OF assms]
  show ?thesis
  proof (cases "frequencies env2 self")
    case (Pair tr1 r1)
    show ?thesis
    proof (cases r1)
      case (Inl e)
      with Pair show ?thesis by (simp add: run_def q)
    next
      case (Inr v)
      then obtain ia nco fa where v: "r1 = Inr (ia, nco, fa)" by (cases v) auto
      show ?thesis
      proof (cases "run_experiment env2 (self\<lparr> control_freq_arr := Some fa \<rparr>) ia nco")
        case p2: (Pair tr2 r2)
        show ?thesis
        proof (cases r2)
          case (Inl e)
          with Pair v p2 show ?thesis by (simp add: run_def q)
        next
          case r2: (Inr u)
          let ?s = "self\<lparr> control_freq_arr := Some fa,
                       t_arr := Some (fst (get_store_data env2)),
                       store_arr := Some (snd (get_store_data env2)) \<rparr>"
          show ?thesis
          proof (cases "jpa_off ?s :: ('p, unit) step")
            case p3: (Pair tr3 r3)
            show ?thesis
            proof (cases r3)
              case (Inl e)
              with Pair v p2 r2 p3 show ?thesis by (simp add: run_def q g)
            next
              case r3: (Inr u')
              obtain fs1 where s1: "save env1 fs ?s None = Inr (fs1, saved_as env1 None)"
                using save_returns [of ?s fa _ _ env1 fs None] by auto
              obtain fs2 where s2: "save env2 fs ?s None = Inr (fs2, saved_as env2 None)"
                using save_returns [of ?s fa _ _ env2 fs None] by auto
              from Pair v p2 r2 p3 r3 s1 s2 show ?thesis by (simp add: run_def q g)
            qed
          qed
        qed
      qed
    qed
  qed
qed

text \<open>
  Claim C7, as amended. Two invocations of \<^verbatim>\<open>run\<close> on instances with equal
  constructor parameters, in environments that give the same sampling rate, the same
  clock, the same stored data, the same pulse handles and the same control envelope,
  issue the same calls; they raise the same exception, or both return and leave equal
  instances, \<^verbatim>\<open>control_freq_arr\<close>, \<^verbatim>\<open>t_arr\<close> and \<^verbatim>\<open>store_arr\<close> included,
  each returning the name that \<^verbatim>\<open>Base.save\<close> gives the file in its environment.
  Neither the arrays of an earlier run nor the files that exist have an influence.
\<close>

theorem run_deterministic:
  fixes env1 :: "'p sdk"
  assumes "same_responses env1 env2" and "parameters self1 = parameters self2"
  shows "calls (run env1 fs1 self1 addr port clk) = calls (run env2 fs2 self2 addr port clk)
    \<and> (\<forall>name. outcome (run env1 fs1 self1 addr port clk) = Inr name \<longrightarrow>
         inst (run env1 fs1 self1 addr port clk) = inst (run env2 fs2 self2 addr port clk)
         \<and> name = saved_as env1 None
         \<and> outcome (run env2 fs2 self2 addr port clk) = Inr (saved_as env2 None))
    \<and> (\<forall>e. outcome (run env1 fs1 self1 addr port clk) = Inl e \<longrightarrow>
         outcome (run env2 fs2 self2 addr port clk) = Inl e)"
  using run_parameters [of env1 fs1 self1 addr port clk fs1]
    run_env [OF assms(1), of fs1 "parameters self2" addr port clk]
    run_parameters [of env2 fs2 self2 addr port clk fs1] assms(2)
  by auto

theorem run_deterministic_witness:
  "same_responses example_sdk example_sdk_renamed
   \<and> parameters ((example_self 3)\<lparr> t_arr := Some [1] \<rparr>) = parameters (example_self 3)
   \<and> calls (run example_sdk Map.empty ((example_self 3)\<lparr> t_arr := Some [1] \<rparr>) ''addr'' None False)
     = calls (run example_sdk_renamed [''old.h5'' \<mapsto> example_file] (example_self 3)
                ''addr'' None False)
   \<and> outcome (run example_sdk Map.empty ((example_self 3)\<lparr> t_arr := Some [1] \<rparr>) ''addr'' None False)
     = Inr ''ramsey_chevron.h5''
   \<and> inst (run example_sdk Map.empty ((example_self 3)\<lparr> t_arr := Some [1] \<rparr>) ''addr'' None False)
     = inst (run example_sdk_renamed [''old.h5'' \<mapsto> example_file] (example_self 3)
               ''addr'' None False)
   \<and> outcome (run example_sdk_renamed [''old.h5'' \<mapsto> example_file] (example_self 3)
                ''addr'' None False)
     = Inr ''other.h5''"
proof -
  have r: "same_responses example_sdk example_sdk_renamed"
    by (simp add: same_responses_def example_sdk_renamed_def)
  have p: "parameters ((example_self 3)\<lparr> t_arr := Some [1] \<rparr>) = parameters (example_self 3)"
    by (simp add: parameters_def)
  have o: "outcome (run example_sdk Map.empty ((example_self 3)\<lparr> t_arr := Some [1] \<rparr>) ''addr''
      None False) = Inr ''ramsey_chevron.h5''"
    by (simp add: run_eval)
  have n: "saved_as example_sdk_renamed None = ''other.h5''"
    by (simp add: example_sdk_renamed_def)
  show ?thesis
    using run_deterministic [OF r p, of Map.empty "''addr''" None False
        "[''old.h5'' \<mapsto> example_file]"] r p o n
    by simp
qed

text \<open>
  The sampling rate, the clock and the stored data do not fix the file name: two
  environments that agree on them and differ in the name \<^verbatim>\<open>Base.save\<close> gives the file
  return different names.
\<close>

theorem run_deterministic_counterexample:
  "get_fs example_sdk = get_fs example_sdk_renamed
   \<and> get_clk_f example_sdk = get_clk_f example_sdk_renamed
   \<and> get_clk_T example_sdk = get_clk_T example_sdk_renamed
   \<and> get_store_data example_sdk = get_store_data example_sdk_renamed
   \<and> outcome (run example_sdk Map.empty (example_self 3) ''addr'' None False)
       = Inr ''ramsey_chevron.h5''
   \<and> outcome (run example_sdk_renamed Map.empty (example_self 3) ''addr'' None False)
       = Inr ''other.h5''
   \<and> outcome (run example_sdk Map.empty (example_self 3) ''addr'' None False)
       \<noteq> outcome (run example_sdk_renamed Map.empty (example_self 3) ''addr'' None False)"
  by (simp add: run_eval example_sdk_renamed_def)

section \<open>Persistence: \<open>save\<close> and \<open>load\<close>\<close>

lemma bind_err_Inr [simp]: "bind_err (Inr a) f = f a"
  by (simp add: bind_err_def)

lemma bind_err_Inl [simp]: "bind_err (Inl e) f = Inl e"
  by (simp add: bind_err_def)

lemma to_float_PyFloat: "map (to_float \<circ> PyFloat) xs = xs"
  by (induction xs) simp_all

lemma astype_atleast_1d:
  assumes "shape a \<noteq> []"
  shows "astype_float64 (atleast_1d (Array \<lparr> shape = shape a, data = map PyFloat (data a) \<rparr>)) = a"
  using assms by (cases a) (simp add: astype_float64_def to_float_PyFloat)

lemma read_fields_file_of:
  assumes "file_of env self = Inr h5f"
    and "literal_eval env (py_str env (jpa_params self)) = Inr (jpa_params self)"
    and "shape (delay_arr self) \<noteq> []"
  shows "bind_err (read_fields env h5f) construct = Inr self"
proof -
  from assms(1) obtain f t s where a: "control_freq_arr self = Some f" "t_arr self = Some t"
    "store_arr self = Some s"
    by (auto simp: file_of_def split: option.splits)
  from assms(1) a have h: "h5f = \<lparr> attrs = [
                  ''readout_freq'' \<mapsto> AFloat (readout_freq self),
                  ''control_freq_center'' \<mapsto> AFloat (control_freq_center self),
                  ''control_freq_span'' \<mapsto> AFloat (control_freq_span self),
                  ''control_freq_nr'' \<mapsto> AInt (control_freq_nr self),
                  ''readout_amp'' \<mapsto> AFloat (readout_amp self),
                  ''control_amp'' \<mapsto> AFloat (control_amp self),
                  ''readout_duration'' \<mapsto> AFloat (readout_duration self),
                  ''control_duration'' \<mapsto> AFloat (control_duration self),
                  ''sample_duration'' \<mapsto> AFloat (sample_duration self),
                  ''readout_port'' \<mapsto> AInt (readout_port self),
                  ''control_port'' \<mapsto> AInt (control_port self),
                  ''sample_port'' \<mapsto> AInt (sample_port self),
                  ''wait_delay'' \<mapsto> AFloat (wait_delay self),
                  ''readout_sample_delay'' \<mapsto> AFloat (readout_sample_delay self),
                  ''num_averages'' \<mapsto> AInt (num_averages self),
                  ''jpa_params'' \<mapsto> AStr (py_str env (jpa_params self)),
                  ''drag'' \<mapsto> AFloat (drag self)],
                datasets = [
                  ''delay_arr'' \<mapsto> FloatND (delay_arr self),
                  ''control_freq_arr'' \<mapsto> FloatND (array1 f),
                  ''t_arr'' \<mapsto> FloatND (array1 t),
                  ''store_arr'' \<mapsto> ComplexND s] \<rparr>"
    by (simp add: file_of_def)
  have r: "read_fields env h5f =
     Inr \<lparr> r_readout_freq = AFloat (readout_freq self),
           r_control_freq_center = AFloat (control_freq_center self),
           r_control_freq_span = AFloat (control_freq_span self),
           r_control_freq_nr = AInt (control_freq_nr self),
           r_readout_amp = AFloat (readout_amp self),
           r_control_amp = AFloat (control_amp self),
           r_readout_duration = AFloat (readout_duration self),
           r_control_duration = AFloat (control_duration self),
           r_sample_duration = AFloat (sample_duration self),
           r_delay_arr = FloatND (delay_arr self),
           r_readout_port = AInt (readout_port self),
           r_control_port = AInt (control_port self),
           r_sample_port = AInt (sample_port self),
           r_wait_delay = AFloat (wait_delay self),
           r_readout_sample_delay = AFloat (readout_sample_delay self),
           r_num_averages = AInt (num_averages self),
           r_jpa_params = jpa_params self,
           r_control_freq_arr = FloatND (array1 f),
           r_t_arr = FloatND (array1 t),
           r_store_arr = ComplexND s,
           r_drag = AFloat (drag self) \<rparr>"
    unfolding h read_fields_def
    by (simp add: getitem_def read_drag_def assms(2))
  show ?thesis
    unfolding r using a astype_atleast_1d [OF assms(3)]
    by (cases self) (simp add: construct_def init_def array1_def)
qed

text \<open>
  Claim C3. For an instance whose three arrays are set, whose delay array has one or
  more dimensions, as every delay array that the constructor stores has, and whose
  \<^verbatim>\<open>jpa_params\<close> has a text that \<^verbatim>\<open>ast.literal_eval\<close> reads back, \<^verbatim>\<open>save\<close>
  writes a file and \<^verbatim>\<open>load\<close> of that file gives the instance back: all constructor
  parameters and the four arrays are equal to the original's.
\<close>

theorem save_load:
  assumes "control_freq_arr self = Some f" and "t_arr self = Some t" and "store_arr self = Some s"
    and "literal_eval env (py_str env (jpa_params self)) = Inr (jpa_params self)"
    and "shape (delay_arr self) \<noteq> []"
  shows "\<exists>fs' name. save env fs self save_filename = Inr (fs', name)
                  \<and> load env fs' name = Inr self"
proof -
  obtain h5f where h: "file_of env self = Inr h5f"
    using assms(1-3) by (simp add: file_of_def)
  have "save env fs self save_filename =
      Inr (fs(saved_as env save_filename \<mapsto> h5f), saved_as env save_filename)"
    using h by (simp add: save_def base_save_def)
  moreover have "load env (fs(saved_as env save_filename \<mapsto> h5f)) (saved_as env save_filename)
      = Inr self"
    using read_fields_file_of [OF h assms(4) assms(5)] by (simp add: load_def)
  ultimately show ?thesis by blast
qed


theorem save_load_witness:
  "control_freq_arr example_run = Some [4, 5, 6]
   \<and> t_arr example_run = Some [0]
   \<and> store_arr example_run = Some \<lparr> shape = [0, 1, 1], data = [] \<rparr>
   \<and> literal_eval example_sdk (py_str example_sdk (jpa_params example_run)) =
       Inr (jpa_params example_run)
   \<and> shape (delay_arr example_run) \<noteq> []
   \<and> (\<exists>fs' name. save example_sdk Map.empty example_run None = Inr (fs', name)
                  \<and> load example_sdk fs' name = Inr example_run)"
proof -
  have h: "control_freq_arr example_run = Some [4, 5, 6]"
    "t_arr example_run = Some [0]"
    "store_arr example_run = Some \<lparr> shape = [0, 1, 1], data = [] \<rparr>"
    "literal_eval example_sdk (py_str example_sdk (jpa_params example_run)) =
       Inr (jpa_params example_run)"
    "shape (delay_arr example_run) \<noteq> []"
    by (simp_all add: example_run_def example_self_def init_def example_sdk_def
        astype_float64_def array1_def)
  show ?thesis
    by (intro conjI) (rule h, rule h, rule h, rule h, rule h, rule save_load [OF h])
qed

lemma bind_err_Inr_D: "bind_err m f = Inr r \<Longrightarrow> \<exists>a. m = Inr a \<and> f a = Inr r"
  by (cases m) simp_all

lemma bind_err_Inl_D: "bind_err m f = Inl e \<Longrightarrow> m = Inl e \<or> (\<exists>a. m = Inr a \<and> f a = Inl e)"
  by (cases m) simp_all

lemma getitem_Inr_D: "getitem d k = Inr v \<Longrightarrow> d k = Some v"
  by (simp add: getitem_def split: option.splits)

lemma getitem_Inl_D: "getitem d k = Inl e \<Longrightarrow> e = KeyError k \<and> d k = None"
  by (simp add: getitem_def split: option.splits)

lemma read_fields_Inr_D:
  assumes "read_fields env h5f = Inr r"
  shows "(\<forall>k \<in> set required_attrs. attrs h5f k \<noteq> None)
       \<and> (\<forall>k \<in> set required_datasets. datasets h5f k \<noteq> None)
       \<and> r_drag r = read_drag h5f"
  using assms unfolding read_fields_def required_attrs_def required_datasets_def
  by (auto dest!: bind_err_Inr_D getitem_Inr_D)

lemma read_fields_Inl_D:
  assumes "read_fields env h5f = Inl e"
  shows "(\<exists>k \<in> set (required_attrs @ required_datasets). e = KeyError k)
       \<or> (\<exists>a. attrs h5f ''jpa_params'' = Some a \<and> eval_attr env a = Inl e)"
  using assms unfolding read_fields_def required_attrs_def required_datasets_def
  by (auto dest!: bind_err_Inl_D getitem_Inl_D getitem_Inr_D)

lemma construct_drag: "construct r = Inr self \<Longrightarrow> as_float (r_drag r) = Inr (drag self)"
  unfolding construct_def
  by (auto dest!: bind_err_Inr_D simp: init_def)

lemma read_fields_drag:
  assumes "attrs h5f ''drag'' = None"
  shows "read_fields env (h5f\<lparr> attrs := (attrs h5f)(''drag'' \<mapsto> AFloat 0) \<rparr>) = read_fields env h5f"
  using assms by (simp add: read_fields_def getitem_def read_drag_def)


text \<open>
  Claim C9. A file without the \<^verbatim>\<open>drag\<close> attribute loads as the same file with
  \<^verbatim>\<open>drag\<close> 0.0 does, and an instance loaded from it has \<^verbatim>\<open>drag = 0.0\<close>. A file
  that lacks any other attribute or dataset that \<^verbatim>\<open>load\<close> reads does not load:
  the exception is the \<^verbatim>\<open>KeyError\<close> of a missing name or, when the text of
  \<^verbatim>\<open>jpa_params\<close> is read before the missing dataset, what \<^verbatim>\<open>ast.literal_eval\<close>
  raises on that text.
\<close>

theorem load_drag:
  assumes "fs name = Some h5f"
  shows "(attrs h5f ''drag'' = None \<longrightarrow>
            load env fs name =
              load env (fs(name \<mapsto> h5f\<lparr> attrs := (attrs h5f)(''drag'' \<mapsto> AFloat 0) \<rparr>)) name
            \<and> (\<forall>self. load env fs name = Inr self \<longrightarrow> drag self = 0))
       \<and> ((\<exists>k \<in> set required_attrs. attrs h5f k = None)
            \<or> (\<exists>k \<in> set required_datasets. datasets h5f k = None) \<longrightarrow>
            (\<exists>e. load env fs name = Inl e
                 \<and> ((\<exists>k \<in> set (required_attrs @ required_datasets). e = KeyError k)
                    \<or> (\<exists>a. attrs h5f ''jpa_params'' = Some a \<and> eval_attr env a = Inl e))))"
proof (intro conjI impI allI)
  assume d: "attrs h5f ''drag'' = None"
  show "load env fs name =
      load env (fs(name \<mapsto> h5f\<lparr> attrs := (attrs h5f)(''drag'' \<mapsto> AFloat 0) \<rparr>)) name"
    using assms by (simp add: load_def read_fields_drag [OF d])
  fix self assume "load env fs name = Inr self"
  with assms obtain r where r: "read_fields env h5f = Inr r" "construct r = Inr self"
    by (auto simp: load_def dest!: bind_err_Inr_D)
  from read_fields_Inr_D [OF r(1)] d have "r_drag r = AFloat 0"
    by (simp add: read_drag_def)
  with construct_drag [OF r(2)] show "drag self = 0" by simp
next
  assume m: "(\<exists>k \<in> set required_attrs. attrs h5f k = None)
            \<or> (\<exists>k \<in> set required_datasets. datasets h5f k = None)"
  have "\<exists>e. read_fields env h5f = Inl e"
  proof (cases "read_fields env h5f")
    case (Inl e)
    then show ?thesis by blast
  next
    case (Inr r)
    from read_fields_Inr_D [OF Inr] m show ?thesis by blast
  qed
  then obtain e where e: "read_fields env h5f = Inl e" by blast
  then have "load env fs name = Inl e"
    using assms by (simp add: load_def)
  with read_fields_Inl_D [OF e]
  show "\<exists>e. load env fs name = Inl e
                 \<and> ((\<exists>k \<in> set (required_attrs @ required_datasets). e = KeyError k)
                    \<or> (\<exists>a. attrs h5f ''jpa_params'' = Some a \<and> eval_attr env a = Inl e))"
    by blast
qed

lemmas load_eval = load_def read_fields_def construct_def getitem_def read_drag_def init_def
  astype_float64_def example_file_def example_sdk_def example_run_def example_self_def
  array1_def

theorem load_drag_witness:
  "[''run.h5'' \<mapsto> example_file] ''run.h5'' = Some example_file
   \<and> attrs example_file ''drag'' = None
   \<and> load example_sdk [''run.h5'' \<mapsto> example_file] ''run.h5'' = Inr example_run
   \<and> drag example_run = 0
   \<and> datasets (example_file\<lparr> datasets := Map.empty \<rparr>) ''delay_arr'' = None
   \<and> load example_sdk [''run.h5'' \<mapsto> example_file\<lparr> datasets := Map.empty \<rparr>] ''run.h5''
       = Inl (KeyError ''delay_arr'')"
proof -
  have a: "[''run.h5'' \<mapsto> example_file] ''run.h5'' = Some example_file"
    by simp
  have b: "[''run.h5'' \<mapsto> example_file\<lparr> datasets := Map.empty \<rparr>] ''run.h5''
      = Some (example_file\<lparr> datasets := Map.empty \<rparr>)"
    by simp
  have c: "load example_sdk [''run.h5'' \<mapsto> example_file] ''run.h5'' = Inr example_run"
    by (simp add: load_eval)
  have d: "load example_sdk [''run.h5'' \<mapsto> example_file\<lparr> datasets := Map.empty \<rparr>] ''run.h5''
       = Inl (KeyError ''delay_arr'')"
    by (simp add: load_eval)
  show ?thesis
    using load_drag [of "[''run.h5'' \<mapsto> example_file]" "''run.h5''" example_file example_sdk]
      load_drag [of "[''run.h5'' \<mapsto> example_file\<lparr> datasets := Map.empty \<rparr>]" "''run.h5''"
        "example_file\<lparr> datasets := Map.empty \<rparr>" example_sdk] c d
    by (simp add: example_file_def example_run_def example_self_def init_def)
qed

section \<open>Analysis: the response map and the fits\<close>

lemma take_drop_concat:
  assumes "\<forall>x \<in> set xs. length (f x) = n" and "r < length xs"
  shows "take n (drop (r * n) (concat (map f xs))) = f (xs ! r)"
  using assms
proof (induction xs arbitrary: r)
  case Nil
  then show ?case by simp
next
  case (Cons x xs)
  show ?case
  proof (cases r)
    case 0
    with Cons.prems show ?thesis by simp
  next
    case (Suc r')
    with Cons.prems have "take n (drop (r' * n) (concat (map f xs))) = f (xs ! r')"
      by (intro Cons.IH) simp_all
    with Suc Cons.prems show ?thesis by simp
  qed
qed

lemma mean_last_take_port0:
  assumes "shape s = [R, P, S]" and "0 < P" and "\<forall>i \<in> set idx. i < S"
  shows "bind_err (take_port0 s idx) (\<lambda>sel. Inr (mean_last sel)) =
     Inr \<lparr> shape = [R], data = map (\<lambda>m. mean (map (\<lambda>i. at3 s m 0 i) idx)) [0..<R] \<rparr>"
proof -
  let ?f = "\<lambda>r. map (\<lambda>i. data s ! ((r * P + 0) * S + i)) idx"
  have t: "take_port0 s idx =
      Inr \<lparr> shape = [R, length idx], data = concat (map ?f [0..<R]) \<rparr>"
    using assms by (auto simp: take_port0_def)
  have "\<And>r. r < R \<Longrightarrow> take (length idx) (drop (r * length idx) (concat (map ?f [0..<R]))) = ?f r"
  proof -
    fix r assume r: "r < R"
    have "take (length idx) (drop (r * length idx) (concat (map ?f [0..<R]))) = ?f ([0..<R] ! r)"
      by (rule take_drop_concat) (simp_all add: r)
    with r show "take (length idx) (drop (r * length idx) (concat (map ?f [0..<R]))) = ?f r"
      by simp
  qed
  then have "map (\<lambda>r. mean (take (length idx) (drop (r * length idx) (concat (map ?f [0..<R])))))
      [0..<R] = map (\<lambda>m. mean (map (\<lambda>i. at3 s m 0 i) idx)) [0..<R]"
    using assms(1) by (intro map_cong) (simp_all add: at3_def)
  then show ?thesis
    by (simp add: t bind_err_def mean_last_def Let_def)
qed

lemma response_map_value:
  assumes "t_arr self = Some t" and "IDX_HIGH < length t"
    and "store_arr self = Some s"
    and "shape (delay_arr self) = nd # rest"
    and "shape s = [nat (control_freq_nr self) * nd, P, S]"
    and "0 < P" and "IDX_HIGH \<le> S"
    and "control_freq_arr self = Some f" and "int (length f) = control_freq_nr self"
    and "all_plots \<longrightarrow> 0 < nat (control_freq_nr self) * nd \<and> length t = S"
  shows "response_map self all_plots =
     Inr \<lparr> shape = [nat (control_freq_nr self), nd],
           data = map (\<lambda>m. mean (map (\<lambda>i. at3 s m 0 i) [IDX_LOW..<IDX_HIGH]))
                    [0..<nat (control_freq_nr self) * nd] \<rparr>"
proof -
  have lo: "IDX_LOW < length t" using assms(2) by (simp add: IDX_LOW_def IDX_HIGH_def)
  have i: "\<forall>i \<in> set [IDX_LOW..<IDX_HIGH]. i < S" using assms(7) by simp
  from mean_last_take_port0 [OF assms(5) assms(6) i]
  obtain sel where sel: "take_port0 s [IDX_LOW..<IDX_HIGH] = Inr sel"
    and m: "mean_last sel = \<lparr> shape = [nat (control_freq_nr self) * nd],
           data = map (\<lambda>m. mean (map (\<lambda>i. at3 s m 0 i) [IDX_LOW..<IDX_HIGH]))
                    [0..<nat (control_freq_nr self) * nd] \<rparr>"
    by (cases "take_port0 s [IDX_LOW..<IDX_HIGH]") (simp_all add: bind_err_def)
  show ?thesis
    using assms(1-6,8-10) lo sel
    by (auto simp: response_map_def item_def bind_err_def m set_shape_def len_def)
qed

lemma index_in_range:
  assumes "(j::nat) < a" and "k < b"
  shows "j * b + k < a * b"
proof -
  have "j * b + k < j * b + b" using assms(2) by simp
  also have "\<dots> = Suc j * b" by simp
  also have "\<dots> \<le> a * b" using assms(1) by (intro mult_le_mono1) simp
  finally show ?thesis .
qed

text \<open>
  Claim C6. With a store array whose first axis has \<^verbatim>\<open>control_freq_nr\<close> times
  \<^verbatim>\<open>len(delay_arr)\<close> rows, with the indices that \<^verbatim>\<open>analyze\<close> reads in range and,
  when all plots are asked for, with as many times as samples,
  the response map has the shape \<^verbatim>\<open>(control_freq_nr, len(delay_arr))\<close>, and its
  element at frequency \<open>j\<close> and delay \<open>k\<close> is the mean over the samples
  \<^verbatim>\<open>IDX_LOW\<close> to \<^verbatim>\<open>IDX_HIGH\<close> of port 0 of row \<open>j * len(delay_arr) + k\<close> of the
  store array.
\<close>

theorem response_map_shape:
  assumes "t_arr self = Some t" and "IDX_HIGH < length t"
    and "store_arr self = Some s"
    and "shape (delay_arr self) = nd # rest"
    and "shape s = [nat (control_freq_nr self) * nd, P, S]"
    and "0 < P" and "IDX_HIGH \<le> S"
    and "control_freq_arr self = Some f" and "int (length f) = control_freq_nr self"
    and "all_plots \<longrightarrow> 0 < nat (control_freq_nr self) * nd \<and> length t = S"
  shows "\<exists>r. response_map self all_plots = Inr r
    \<and> shape r = [nat (control_freq_nr self), nd]
    \<and> (\<forall>j < nat (control_freq_nr self). \<forall>k < nd.
          at2 r j k = mean (map (\<lambda>i. at3 s (j * nd + k) 0 i) [IDX_LOW..<IDX_HIGH]))"
  using response_map_value [OF assms]
  by (simp add: at2_def index_in_range)


lemma mean_const:
  assumes "xs \<noteq> []" and "\<forall>x \<in> set xs. g x = c"
  shows "mean (map g xs) = c"
proof -
  have "sum_list (map g xs) = sum_list (map (\<lambda>_. c) xs)"
    using assms(2) by (intro arg_cong [where f = sum_list] map_cong) simp_all
  also have "\<dots> = of_nat (length xs) * c"
    by (simp add: sum_list_triv)
  finally have "sum_list (map g xs) = of_nat (length xs) * c" .
  with assms(1) show ?thesis by (simp add: mean_def)
qed

lemma example_store_means:
  "map (\<lambda>m. mean (map (\<lambda>i. at3 example_store m 0 i) [IDX_LOW..<IDX_HIGH])) [0..<4]
     = [1, 1, - 1, - 1]"
proof -
  have n: "[0..<4] = [0, 1, 2, 3 :: nat]" by code_simp
  have ne: "[IDX_LOW..<IDX_HIGH] \<noteq> []" by (simp add: IDX_LOW_def IDX_HIGH_def)
  have "mean (map (\<lambda>i. at3 example_store 0 0 i) [IDX_LOW..<IDX_HIGH]) = 1"
    by (rule mean_const [OF ne])
       (simp add: at3_def example_store_def IDX_HIGH_def nth_append)
  moreover have "mean (map (\<lambda>i. at3 example_store 1 0 i) [IDX_LOW..<IDX_HIGH]) = 1"
    by (rule mean_const [OF ne])
       (simp add: at3_def example_store_def IDX_HIGH_def nth_append)
  moreover have "mean (map (\<lambda>i. at3 example_store 2 0 i) [IDX_LOW..<IDX_HIGH]) = - 1"
    by (rule mean_const [OF ne])
       (simp add: at3_def example_store_def IDX_HIGH_def nth_append)
  moreover have "mean (map (\<lambda>i. at3 example_store 3 0 i) [IDX_LOW..<IDX_HIGH]) = - 1"
    by (rule mean_const [OF ne])
       (simp add: at3_def example_store_def IDX_HIGH_def nth_append)
  ultimately show ?thesis by (simp add: n)
qed

lemma example_analysis_fields:
  "t_arr example_analysis = Some (replicate 2001 0)"
  "IDX_HIGH < length (replicate 2001 (0::real))"
  "store_arr example_analysis = Some example_store"
  "shape (delay_arr example_analysis) = 2 # []"
  "shape example_store = [nat (control_freq_nr example_analysis) * 2, 1, 2001]"
  "(0::nat) < 1"
  "IDX_HIGH \<le> 2001"
  "control_freq_arr example_analysis = Some [4, 6]"
  "int (length [4, 6 :: real]) = control_freq_nr example_analysis"
  by (simp_all add: example_analysis_def example_self_def init_def example_store_def IDX_HIGH_def
      astype_float64_def array1_def)

lemma example_analysis_plots:
  "all_plots \<longrightarrow> 0 < nat (control_freq_nr example_analysis) * 2
     \<and> length (replicate 2001 (0::real)) = 2001"
  by (simp add: example_analysis_def example_self_def init_def)

lemma example_response_map:
  "response_map example_analysis all_plots = Inr \<lparr> shape = [2, 2], data = [1, 1, - 1, - 1] \<rparr>"
proof -
  have v: "nat (control_freq_nr example_analysis) = 2"
    by (simp add: example_analysis_def example_self_def init_def)
  show ?thesis
    using response_map_value [OF example_analysis_fields example_analysis_plots]
      example_store_means
    by (simp add: v)
qed

theorem response_map_shape_witness:
  "t_arr example_analysis = Some (replicate 2001 0)
   \<and> IDX_HIGH < length (replicate 2001 (0::real))
   \<and> store_arr example_analysis = Some example_store
   \<and> shape (delay_arr example_analysis) = [2]
   \<and> shape example_store = [nat (control_freq_nr example_analysis) * 2, 1, 2001]
   \<and> IDX_HIGH \<le> 2001
   \<and> control_freq_arr example_analysis = Some [4, 6]
   \<and> int (length [4, 6 :: real]) = control_freq_nr example_analysis
   \<and> 0 < nat (control_freq_nr example_analysis) * 2
   \<and> length (replicate 2001 (0::real)) = 2001
   \<and> (\<exists>r. response_map example_analysis True = Inr r
          \<and> shape r = [2, 2]
          \<and> at2 r 1 0 =
              mean (map (\<lambda>i. at3 example_store (1 * 2 + 0) 0 i) [IDX_LOW..<IDX_HIGH]))"
proof -
  have v: "nat (control_freq_nr example_analysis) = 2"
    by (simp add: example_analysis_def example_self_def init_def)
  from response_map_shape [OF example_analysis_fields example_analysis_plots, of True]
  obtain r where r: "response_map example_analysis True = Inr r"
    "shape r = [nat (control_freq_nr example_analysis), 2]"
    "\<forall>j < nat (control_freq_nr example_analysis). \<forall>k < 2.
          at2 r j k = mean (map (\<lambda>i. at3 example_store (j * 2 + k) 0 i) [IDX_LOW..<IDX_HIGH])"
    by blast
  from r(3) have "at2 r 1 0 =
      mean (map (\<lambda>i. at3 example_store (1 * 2 + 0) 0 i) [IDX_LOW..<IDX_HIGH])"
    by (simp add: v)
  with r(1,2) have "\<exists>r. response_map example_analysis True = Inr r
          \<and> shape r = [2, 2]
          \<and> at2 r 1 0 =
              mean (map (\<lambda>i. at3 example_store (1 * 2 + 0) 0 i) [IDX_LOW..<IDX_HIGH])"
    by (simp add: v)
  with example_analysis_fields example_analysis_plots [of True] show ?thesis by simp
qed

lemma fit_rows_length:
  "length (fst (fit_rows fit x pd js (ff, ef))) = length ff
   \<and> length (snd (fit_rows fit x pd js (ff, ef))) = length ef"
  by (induction js arbitrary: ff ef) (auto split: sum.splits)

lemma fit_rows_other:
  "jj \<notin> set js \<Longrightarrow>
   fst (fit_rows fit x pd js (ff, ef)) ! jj = ff ! jj
   \<and> snd (fit_rows fit x pd js (ff, ef)) ! jj = ef ! jj"
  by (induction js arbitrary: ff ef) (auto split: sum.splits)

lemma fit_rows_nth:
  assumes "distinct js" and "jj \<in> set js" and "jj < length ff" and "jj < length ef"
  shows "(\<forall>e. fit x (row pd jj) = Inl e \<longrightarrow>
            fst (fit_rows fit x pd js (ff, ef)) ! jj = NaN)
       \<and> (\<forall>popt perr. fit x (row pd jj) = Inr (popt, perr) \<longrightarrow>
            fst (fit_rows fit x pd js (ff, ef)) ! jj = np_abs (param3 popt)
            \<and> snd (fit_rows fit x pd js (ff, ef)) ! jj = param3 perr)"
  using assms
proof (induction js arbitrary: ff ef)
  case Nil
  then show ?case by simp
next
  case (Cons j js)
  show ?case
  proof (cases "jj = j")
    case True
    with Cons.prems have "jj \<notin> set js" by simp
    from fit_rows_other [OF this] True Cons.prems(3,4) show ?thesis
      by (auto split: sum.splits)
  next
    case False
    with Cons.prems have d: "distinct js" "jj \<in> set js" by simp_all
    show ?thesis
    proof (cases "fit x (row pd j)")
      case (Inl e)
      from Cons.IH [OF d, of "ff[j := NaN]" ef] Cons.prems(3,4) Inl show ?thesis
        by simp
    next
      case (Inr v)
      obtain res err where v: "v = (res, err)" by (cases v)
      from Cons.IH [OF d, of "ff[j := np_abs (param3 res)]" "ef[j := param3 err]"]
        Cons.prems(3,4) Inr v show ?thesis
        by simp
    qed
  qed
qed

lemma response_map_Inr_D:
  "response_map self ap = Inr r \<Longrightarrow>
   \<exists>f. control_freq_arr self = Some f \<and> int (length f) = control_freq_nr self"
  by (auto simp: response_map_def split: option.splits if_splits)

lemma analyze_Inr_D:
  assumes "analyze env fit self ap = Inr res"
  shows "\<exists>pd f. bind_err (response_map self ap) (plot_data env) = Inr pd
     \<and> control_freq_arr self = Some f \<and> int (length f) = control_freq_nr self
     \<and> extent self f = Inr ()
     \<and> res = fit_rows fit (delay_arr self) pd [0..<nat (control_freq_nr self)]
               (replicate (length f) (Finite 0), replicate (length f) (Finite 0))"
proof -
  from assms obtain resp pd where
    r: "response_map self ap = Inr resp" and p: "plot_data env resp = Inr pd"
    and rest: "(case control_freq_arr self of
       None \<Rightarrow> Inl (AssertionError ''self.control_freq_arr is not None'')
     | Some f \<Rightarrow>
         bind_err (extent self f) (\<lambda>_.
         let zeros = replicate (length f) (Finite 0)
         in Inr (fit_rows fit (delay_arr self) pd
                   [0..<nat (control_freq_nr self)] (zeros, zeros)))) = Inr res"
    unfolding analyze_def by (auto dest!: bind_err_Inr_D)
  from response_map_Inr_D [OF r] obtain f where
    f: "control_freq_arr self = Some f" "int (length f) = control_freq_nr self"
    by blast
  from rest f have "extent self f = Inr ()"
    and "res = fit_rows fit (delay_arr self) pd [0..<nat (control_freq_nr self)]
               (replicate (length f) (Finite 0), replicate (length f) (Finite 0))"
    by (auto dest!: bind_err_Inr_D simp: Let_def)
  with r p f show ?thesis
    by (simp add: bind_err_def)
qed

lemma analyze_returns:
  assumes "bind_err (response_map self ap) (plot_data env) = Inr pd"
    and "control_freq_arr self = Some f" and "extent self f = Inr ()"
  shows "analyze env fit self ap =
      Inr (fit_rows fit (delay_arr self) pd [0..<nat (control_freq_nr self)]
               (replicate (length f) (Finite 0), replicate (length f) (Finite 0)))"
  using assms
  by (auto simp: analyze_def bind_err_def Let_def split: sum.splits)

text \<open>
  Claim C4. When \<^verbatim>\<open>analyze\<close> gets through its loop over the rows \<open>jj\<close>, then for
  every row on which the fit raises \<^verbatim>\<open>fit_freq[jj]\<close> is NaN, and for every row on
  which it returns \<^verbatim>\<open>fit_freq[jj]\<close> is the absolute value of the fitted frequency
  and \<^verbatim>\<open>err_freq[jj]\<close> its error; and \<^verbatim>\<open>analyze\<close> gets through the loop
  whatever the fit does, also with a fit that raises on every row.
\<close>

theorem analyze_fit:
  assumes "analyze env fit self ap = Inr (fit_freq, err_freq)"
    and "bind_err (response_map self ap) (plot_data env) = Inr pd"
    and "jj < nat (control_freq_nr self)"
  shows "(\<forall>e. fit (delay_arr self) (row pd jj) = Inl e \<longrightarrow> fit_freq ! jj = NaN)
       \<and> (\<forall>popt perr. fit (delay_arr self) (row pd jj) = Inr (popt, perr) \<longrightarrow>
            fit_freq ! jj = np_abs (param3 popt) \<and> err_freq ! jj = param3 perr)
       \<and> (\<forall>fit'. \<exists>res. analyze env fit' self ap = Inr res)"
proof -
  from analyze_Inr_D [OF assms(1)] assms(2) obtain f where
    f: "control_freq_arr self = Some f" "int (length f) = control_freq_nr self"
       "extent self f = Inr ()"
    and res: "(fit_freq, err_freq) =
       fit_rows fit (delay_arr self) pd [0..<nat (control_freq_nr self)]
               (replicate (length f) (Finite 0), replicate (length f) (Finite 0))"
    by auto
  have l: "jj < length f" using f(2) assms(3) by simp
  have "distinct [0..<nat (control_freq_nr self)]" "jj \<in> set [0..<nat (control_freq_nr self)]"
    "jj < length (replicate (length f) (Finite (0::real)))"
    using assms(3) l by simp_all
  from fit_rows_nth [OF this(1) this(2) this(3) this(3), of fit "delay_arr self" pd]
  have "(\<forall>e. fit (delay_arr self) (row pd jj) = Inl e \<longrightarrow> fit_freq ! jj = NaN)
       \<and> (\<forall>popt perr. fit (delay_arr self) (row pd jj) = Inr (popt, perr) \<longrightarrow>
            fit_freq ! jj = np_abs (param3 popt) \<and> err_freq ! jj = param3 perr)"
    unfolding res [symmetric] by simp
  moreover have "\<forall>fit'. \<exists>res. analyze env fit' self ap = Inr res"
    using analyze_returns [OF assms(2) f(1) f(3)] by blast
  ultimately show ?thesis by blast
qed


lemma example_plot_data:
  "bind_err (response_map example_analysis False) (plot_data example_sdk) =
     Inr \<lparr> shape = [2, 2], data = [1, 1, - 1, - 1] \<rparr>"
  by (simp add: example_response_map plot_data_def example_sdk_def Let_def)

lemma example_analyze:
  "analyze example_sdk example_fit example_analysis False =
     Inr ([Finite 3, NaN], [Finite (1 / 2), Finite 0])"
proof -
  have n: "[0..<2] = [0, 1 :: nat]" by code_simp
  have e: "extent example_analysis [4, 6] = Inr ()"
    by (simp add: extent_def item_def has_item_def has_last_def example_analysis_def
        example_self_def init_def astype_float64_def array1_def)
  show ?thesis
    using analyze_returns [OF example_plot_data example_analysis_fields(8) e, of example_fit]
    by (simp add: n row_def example_fit_def example_analysis_def example_self_def init_def
        astype_float64_def array1_def)
qed

theorem analyze_fit_witness:
  "analyze example_sdk example_fit example_analysis False =
     Inr ([Finite 3, NaN], [Finite (1 / 2), Finite 0])
   \<and> bind_err (response_map example_analysis False) (plot_data example_sdk) =
     Inr \<lparr> shape = [2, 2], data = [1, 1, - 1, - 1] \<rparr>
   \<and> (1::nat) < nat (control_freq_nr example_analysis)
   \<and> example_fit (delay_arr example_analysis)
        (row \<lparr> shape = [2, 2], data = [1, 1, - 1, - 1] \<rparr> 1) = Inl ValueError
   \<and> [Finite 3, NaN] ! 1 = NaN
   \<and> example_fit (delay_arr example_analysis)
        (row \<lparr> shape = [2, 2], data = [1, 1, - 1, - 1] \<rparr> 0) =
       Inr ((Finite 0, Finite 1, Finite 1, Finite (- 3), Finite 0),
            (Finite 0, Finite 0, Finite 0, Finite (1 / 2), Finite 0))
   \<and> [Finite 3, NaN] ! 0 = np_abs (Finite (- 3))
   \<and> (\<exists>res. analyze example_sdk (\<lambda>x y. Inl ValueError) example_analysis False = Inr res)"
proof -
  have j: "(1::nat) < nat (control_freq_nr example_analysis)"
    "(0::nat) < nat (control_freq_nr example_analysis)"
    by (simp_all add: example_analysis_def example_self_def init_def)
  have f: "example_fit (delay_arr example_analysis)
        (row \<lparr> shape = [2, 2], data = [1, 1, - 1, - 1] \<rparr> 1) = Inl ValueError"
    "example_fit (delay_arr example_analysis)
        (row \<lparr> shape = [2, 2], data = [1, 1, - 1, - 1] \<rparr> 0) =
       Inr ((Finite 0, Finite 1, Finite 1, Finite (- 3), Finite 0),
            (Finite 0, Finite 0, Finite 0, Finite (1 / 2), Finite 0))"
    by (simp_all add: example_fit_def row_def)
  from analyze_fit [OF example_analyze example_plot_data j(1)]
    analyze_fit [OF example_analyze example_plot_data j(2)] f
  have "[Finite 3, NaN] ! 1 = NaN" "[Finite 3, NaN] ! 0 = np_abs (Finite (- 3))"
    "\<exists>res. analyze example_sdk (\<lambda>x y. Inl ValueError) example_analysis False = Inr res"
    by auto
  with example_analyze example_plot_data j(1) f show ?thesis by simp
qed

end
